theory Spec2Isabelle
  imports Complex_Main "HOL-Library.Char_ord" "HOL-Library.List_Lexorder"
begin

section \<open>The Python runtime, as far as the two scripts use it\<close>

text \<open>
  Strings are ASCII character lists. Exceptions are values; \<open>exn_str\<close> is Python's
  \<^verbatim>\<open>str(e)\<close>. A float is modelled by the rational it denotes (rounding to binary64 and
  the non-finite values are outside the model).
\<close>

datatype exn =
    ValueError string
  | IndexError string
  | TypeError string
  | ZeroDivisionError string
  | AttributeError string
  | Exception string

fun exn_str :: "exn \<Rightarrow> string" where
  "exn_str (ValueError m) = m"
| "exn_str (IndexError m) = m"
| "exn_str (TypeError m) = m"
| "exn_str (ZeroDivisionError m) = m"
| "exn_str (AttributeError m) = m"
| "exn_str (Exception m) = m"

definition bindE :: "exn + 'a \<Rightarrow> ('a \<Rightarrow> exn + 'b) \<Rightarrow> exn + 'b" where
  "bindE m f = (case m of Inl e \<Rightarrow> Inl e | Inr x \<Rightarrow> f x)"

subsection \<open>Strings\<close>

definition is_space :: "char \<Rightarrow> bool" where
  \<comment> \<open>the ASCII characters for which \<^verbatim>\<open>str.isspace\<close> holds: TAB, LF, VT, FF, CR, FS, GS, RS, US, space\<close>
  "is_space c = (let n = (of_char c :: nat) in (9 \<le> n \<and> n \<le> 13) \<or> (28 \<le> n \<and> n \<le> 32))"

definition strip :: "string \<Rightarrow> string" where
  \<comment> \<open>\<^verbatim>\<open>s.strip()\<close>\<close>
  "strip s = rev (dropWhile is_space (rev (dropWhile is_space s)))"

fun split_by :: "(char \<Rightarrow> bool) \<Rightarrow> string \<Rightarrow> string list" where
  "split_by p [] = [[]]"
| "split_by p (c # cs) =
     (if p c then [] # split_by p cs
      else (case split_by p cs of [] \<Rightarrow> [[c]] | w # ws \<Rightarrow> (c # w) # ws))"

definition split_on :: "char \<Rightarrow> string \<Rightarrow> string list" where
  \<comment> \<open>\<^verbatim>\<open>s.split(sep)\<close> for a separator of one character: empty pieces are kept\<close>
  "split_on sep s = split_by (\<lambda>c. c = sep) s"

definition split_ws :: "string \<Rightarrow> string list" where
  \<comment> \<open>\<^verbatim>\<open>s.split()\<close>: the pieces between runs of whitespace, none of them empty\<close>
  "split_ws s = filter (\<lambda>w. w \<noteq> []) (split_by is_space s)"

fun contains :: "string \<Rightarrow> string \<Rightarrow> bool" where
  \<comment> \<open>\<^verbatim>\<open>sub in s\<close>\<close>
  "contains sub [] = (sub = [])"
| "contains sub (c # cs) = (take (length sub) (c # cs) = sub \<or> contains sub cs)"

fun remove_ms :: "string \<Rightarrow> string" where
  \<comment> \<open>\<^verbatim>\<open>s.replace('ms', '')\<close>\<close>
  "remove_ms [] = []"
| "remove_ms [c] = [c]"
| "remove_ms (c # d # cs) =
     (if c = CHR ''m'' \<and> d = CHR ''s'' then remove_ms cs else c # remove_ms (d # cs))"

definition upper_char :: "char \<Rightarrow> char" where
  "upper_char c = (let n = (of_char c :: nat) in if 97 \<le> n \<and> n \<le> 122 then char_of (n - 32) else c)"

definition lower_char :: "char \<Rightarrow> char" where
  "lower_char c = (let n = (of_char c :: nat) in if 65 \<le> n \<and> n \<le> 90 then char_of (n + 32) else c)"

definition upper :: "string \<Rightarrow> string" where
  "upper s = map upper_char s"

definition lower :: "string \<Rightarrow> string" where
  "lower s = map lower_char s"

definition quote :: "string \<Rightarrow> string" where
  \<comment> \<open>\<^verbatim>\<open>repr(s)\<close> of a string without quotes or escapes in it\<close>
  "quote s = [CHR 0x27] @ s @ [CHR 0x27]"

definition py_index :: "'a list \<Rightarrow> nat \<Rightarrow> exn + 'a" where
  \<comment> \<open>\<^verbatim>\<open>xs[i]\<close> for a constant index \<open>i \<ge> 0\<close>\<close>
  "py_index xs i = (if i < length xs then Inr (xs ! i) else Inl (IndexError ''list index out of range''))"

subsection \<open>Integers and floats from and to text\<close>

definition is_digit :: "char \<Rightarrow> bool" where
  "is_digit c = (let n = (of_char c :: nat) in 48 \<le> n \<and> n \<le> 57)"

definition digit_val :: "char \<Rightarrow> nat" where
  "digit_val c = of_char c - 48"

fun digits_from :: "nat \<Rightarrow> string \<Rightarrow> nat option" where
  \<comment> \<open>the rest of a decimal literal after a digit: digits, each optionally preceded by one underscore\<close>
  "digits_from acc [] = Some acc"
| "digits_from acc [c] = (if is_digit c then Some (10 * acc + digit_val c) else None)"
| "digits_from acc (c # d # ds) =
     (if is_digit c then digits_from (10 * acc + digit_val c) (d # ds)
      else if c = CHR ''_'' \<and> is_digit d then digits_from (10 * acc + digit_val d) ds
      else None)"

definition decimal :: "string \<Rightarrow> nat option" where
  "decimal s = (case s of [] \<Rightarrow> None | c # cs \<Rightarrow> if is_digit c then digits_from (digit_val c) cs else None)"

definition py_int :: "string \<Rightarrow> exn + int" where
  \<comment> \<open>\<^verbatim>\<open>int(s)\<close> for a string: surrounding whitespace, an optional sign, a decimal literal;
      anything else raises ValueError\<close>
  "py_int s =
     (let t = strip s;
          bad = Inl (ValueError (''invalid literal for int() with base 10: '' @ quote s))
      in case t of
           [] \<Rightarrow> bad
         | c # cs \<Rightarrow>
             if c = CHR ''-'' then (case decimal cs of None \<Rightarrow> bad | Some n \<Rightarrow> Inr (- int n))
             else if c = CHR ''+'' then (case decimal cs of None \<Rightarrow> bad | Some n \<Rightarrow> Inr (int n))
             else (case decimal t of None \<Rightarrow> bad | Some n \<Rightarrow> Inr (int n)))"

definition py_float :: "(string \<Rightarrow> rat option) \<Rightarrow> string \<Rightarrow> exn + rat" where
  \<comment> \<open>\<^verbatim>\<open>float(s)\<close> for a string. The grammar of float literals is a parameter: \<open>float_of s\<close> is
      the value read, or None where \<^verbatim>\<open>float\<close> raises ValueError.\<close>
  "py_float float_of s =
     (case float_of s of
        None \<Rightarrow> Inl (ValueError (''could not convert string to float: '' @ quote s))
      | Some r \<Rightarrow> Inr r)"

function digits_of :: "nat \<Rightarrow> string" where
  "digits_of n = (if n < 10 then [char_of (48 + n)] else digits_of (n div 10) @ [char_of (48 + n mod 10)])"
  by pat_completeness auto
termination
  by (relation "measure id") auto

declare digits_of.simps [simp del]

definition str_int :: "int \<Rightarrow> string" where
  \<comment> \<open>\<^verbatim>\<open>str(n)\<close>\<close>
  "str_int i = (if i < 0 then CHR ''-'' # digits_of (nat (- i)) else digits_of (nat i))"

subsection \<open>Statements that may raise while they update a dictionary\<close>

text \<open>
  A statement maps the dictionary to the updated dictionary and the exception that
  stopped it, if any: the assignments made before the exception stay.
\<close>

type_synonym 's stmt = "'s \<Rightarrow> 's \<times> exn option"

definition skip :: "'s stmt" where
  "skip s = (s, None)"

definition raise :: "exn \<Rightarrow> 's stmt" where
  "raise e s = (s, Some e)"

definition assign :: "(exn + 'a) \<Rightarrow> ('a \<Rightarrow> 's \<Rightarrow> 's) \<Rightarrow> 's stmt" where
  "assign v upd s = (case v of Inl e \<Rightarrow> (s, Some e) | Inr x \<Rightarrow> (upd x s, None))"

definition seq :: "'s stmt \<Rightarrow> 's stmt \<Rightarrow> 's stmt" where
  "seq f g s = (case f s of (s', None) \<Rightarrow> g s' | (s', Some e) \<Rightarrow> (s', Some e))"

fun for_each :: "('a \<Rightarrow> 's stmt) \<Rightarrow> 'a list \<Rightarrow> 's stmt" where
  "for_each body [] s = (s, None)"
| "for_each body (x # xs) s =
     (case body x s of (s', None) \<Rightarrow> for_each body xs s' | (s', Some e) \<Rightarrow> (s', Some e))"

section \<open>Parameters from the environment\<close>

datatype param = PNone | PBool bool | PInt int | PStr string | PList "string list"

datatype param_type = TStr | TInt | TBool | TList

definition env_name :: "string \<Rightarrow> string" where
  "env_name name = ''PARAM_'' @ upper name"

definition environ_get :: "(string \<rightharpoonup> string) \<Rightarrow> string \<Rightarrow> param \<Rightarrow> param" where
  \<comment> \<open>\<^verbatim>\<open>os.environ.get(key, dflt)\<close>\<close>
  "environ_get environ key dflt = (case environ key of None \<Rightarrow> dflt | Some s \<Rightarrow> PStr s)"

fun int_of_param :: "param \<Rightarrow> exn + int" where
  \<comment> \<open>\<^verbatim>\<open>int(value)\<close>\<close>
  "int_of_param (PStr s) = py_int s"
| "int_of_param (PInt i) = Inr i"
| "int_of_param (PBool b) = Inr (if b then 1 else 0)"
| "int_of_param PNone = Inl (TypeError ''int() argument must be a string, a bytes-like object or a real number, not 'NoneType' '')"
| "int_of_param (PList xs) = Inl (TypeError ''int() argument must be a string, a bytes-like object or a real number, not 'list' '')"

fun join_comma :: "string list \<Rightarrow> string" where
  "join_comma [] = []"
| "join_comma [x] = x"
| "join_comma (x # y # ys) = x @ '', '' @ join_comma (y # ys)"

fun str_of_param :: "param \<Rightarrow> string" where
  \<comment> \<open>\<^verbatim>\<open>str(value)\<close>; the items of a list are shown without escapes\<close>
  "str_of_param (PStr s) = s"
| "str_of_param (PInt i) = str_int i"
| "str_of_param (PBool b) = (if b then ''True'' else ''False'')"
| "str_of_param PNone = ''None''"
| "str_of_param (PList xs) = ''['' @ join_comma (map quote xs) @ '']''"

definition split_items :: "string \<Rightarrow> string list" where
  \<comment> \<open>\<^verbatim>\<open>[item.strip() for item in value.split(',') if item.strip()]\<close>\<close>
  "split_items s = map strip (filter (\<lambda>item. strip item \<noteq> []) (split_on CHR '','' s))"

definition coerce_int :: "param \<Rightarrow> param \<Rightarrow> exn + param" where
  \<comment> \<open>\<^verbatim>\<open>try: return int(value)  except ValueError: return dflt\<close>\<close>
  "coerce_int v dflt =
     (case int_of_param v of
        Inr i \<Rightarrow> Inr (PInt i)
      | Inl (ValueError m) \<Rightarrow> Inr dflt
      | Inl e \<Rightarrow> Inl e)"

definition coerce_bool :: "param \<Rightarrow> param" where
  "coerce_bool v = PBool (lower (str_of_param v) \<in> set [''true'', ''1'', ''yes'', ''on''])"

definition get_parameter :: "(string \<rightharpoonup> string) \<Rightarrow> string \<Rightarrow> param \<Rightarrow> param_type \<Rightarrow> exn + param" where
  \<comment> \<open>network\_ping\_check.py\<close>
  "get_parameter environ name dflt param_type =
     (let v = environ_get environ (env_name name) dflt
      in if v = PNone then Inr PNone
         else if param_type = TInt then coerce_int v dflt
         else if param_type = TBool then Inr (coerce_bool v)
         else if param_type = TList then
           (case v of PStr s \<Rightarrow> Inr (PList (split_items s)) | _ \<Rightarrow> Inr v)
         else Inr v)"

definition get_parameter_db :: "(string \<rightharpoonup> string) \<Rightarrow> string \<Rightarrow> param \<Rightarrow> param_type \<Rightarrow> exn + param" where
  \<comment> \<open>database\_health\_check.py: the same without the list branch\<close>
  "get_parameter_db environ name dflt param_type =
     (let v = environ_get environ (env_name name) dflt
      in if v = PNone then Inr PNone
         else if param_type = TInt then coerce_int v dflt
         else if param_type = TBool then Inr (coerce_bool v)
         else Inr v)"

section \<open>What both scripts share\<close>

text \<open>
  The world outside a script is a record of what the script reads from it. Every probe
  yields a dictionary with the keys \<^verbatim>\<open>success\<close> and \<^verbatim>\<open>error\<close>.
\<close>

record runtime =
  environ :: "string \<rightharpoonup> string"  \<comment> \<open>\<^verbatim>\<open>os.environ\<close>\<close>
  float_of :: "string \<Rightarrow> rat option"  \<comment> \<open>the grammar of \<^verbatim>\<open>float(s)\<close>, see \<open>py_float\<close>\<close>
  can_write :: bool  \<comment> \<open>whether the report file can be opened and written\<close>

record probe =
  success :: bool
  error :: "string option"

section \<open>network\_ping\_check.py\<close>

subsection \<open>The machine the script runs on\<close>

datatype run_outcome =
    Completed int string string  \<comment> \<open>returncode, stdout, stderr\<close>
  | TimeoutExpired
  | Raised string  \<comment> \<open>any other exception of \<^verbatim>\<open>subprocess.run\<close>, with its text\<close>

record machine = runtime +
  os_nt :: bool  \<comment> \<open>\<^verbatim>\<open>os.name == 'nt'\<close>\<close>
  run :: "string list \<Rightarrow> int \<Rightarrow> run_outcome"  \<comment> \<open>\<^verbatim>\<open>subprocess.run(cmd, timeout=...)\<close>\<close>

subsection \<open>Probe results\<close>

record ping_result = probe +
  host :: string
  packets_sent :: int
  packets_received :: int
  packet_loss_percent :: rat
  min_time :: "rat option"
  avg_time :: "rat option"
  max_time :: "rat option"

definition initial_result :: "string \<Rightarrow> ping_result" where
  "initial_result h =
     \<lparr> success = False, error = None, host = h,
       packets_sent = 0, packets_received = 0, packet_loss_percent = 100,
       min_time = None, avg_time = None, max_time = None \<rparr>"

subsection \<open>Parsing the tool's output\<close>

definition win_packets_part :: "machine \<Rightarrow> string \<Rightarrow> ping_result stmt" where
  "win_packets_part m part0 =
     (let part = strip part0
      in if contains ''Sent'' part then
           assign (bindE (py_index (split_on CHR ''='' part) 1) (\<lambda>x. py_int (strip x)))
                  (\<lambda>v r. r\<lparr>packets_sent := v\<rparr>)
         else if contains ''Received'' part then
           assign (bindE (py_index (split_on CHR ''='' part) 1) (\<lambda>x. py_int (strip x)))
                  (\<lambda>v r. r\<lparr>packets_received := v\<rparr>)
         else if contains ''loss'' part \<and> contains ''('' part then
           assign (bindE (py_index (split_on CHR ''('' part) 1)
                     (\<lambda>x. bindE (py_index (split_on CHR ''%'' x) 0) (py_float (float_of m))))
                  (\<lambda>v r. r\<lparr>packet_loss_percent := v\<rparr>)
         else skip)"

definition unix_packets :: "machine \<Rightarrow> string \<Rightarrow> ping_result stmt" where
  "unix_packets m line =
     (let parts = split_on CHR '','' line
      in if length parts \<ge> 3 then
           seq (assign (bindE (py_index (split_ws (parts ! 0)) 0) py_int)
                       (\<lambda>v r. r\<lparr>packets_sent := v\<rparr>))
          (seq (assign (bindE (py_index (split_ws (parts ! 1)) 0) py_int)
                       (\<lambda>v r. r\<lparr>packets_received := v\<rparr>))
               (assign (bindE (py_index (split_on CHR ''%'' (strip (parts ! 2))) 0)
                              (py_float (float_of m)))
                       (\<lambda>v r. r\<lparr>packet_loss_percent := v\<rparr>)))
         else skip)"

definition ms_value :: "machine \<Rightarrow> string \<Rightarrow> exn + rat" where
  \<comment> \<open>\<^verbatim>\<open>float(part.split('=')[1].replace('ms', '').strip())\<close>\<close>
  "ms_value m part =
     bindE (py_index (split_on CHR ''='' part) 1) (\<lambda>x. py_float (float_of m) (strip (remove_ms x)))"

definition win_timing_part :: "machine \<Rightarrow> string \<Rightarrow> ping_result stmt" where
  "win_timing_part m part0 =
     (let part = strip part0
      in if contains ''Minimum'' part then assign (ms_value m part) (\<lambda>v r. r\<lparr>min_time := Some v\<rparr>)
         else if contains ''Maximum'' part then assign (ms_value m part) (\<lambda>v r. r\<lparr>max_time := Some v\<rparr>)
         else if contains ''Average'' part then assign (ms_value m part) (\<lambda>v r. r\<lparr>avg_time := Some v\<rparr>)
         else skip)"

definition unix_timing :: "machine \<Rightarrow> string \<Rightarrow> ping_result stmt" where
  "unix_timing m line =
     (if contains ''='' line then
        (case py_index (split_on CHR ''='' line) 1 of
           Inl e \<Rightarrow> raise e
         | Inr x \<Rightarrow>
             (let times = take 3 (split_on CHR ''/'' (strip x))
              in if length times \<ge> 3 then
                   seq (assign (py_float (float_of m) (times ! 0)) (\<lambda>v r. r\<lparr>min_time := Some v\<rparr>))
                  (seq (assign (py_float (float_of m) (times ! 1)) (\<lambda>v r. r\<lparr>avg_time := Some v\<rparr>))
                       (assign (py_float (float_of m) (times ! 2)) (\<lambda>v r. r\<lparr>max_time := Some v\<rparr>)))
                 else skip))
      else skip)"

definition is_packets_line :: "string \<Rightarrow> bool" where
  "is_packets_line line = (contains ''packets transmitted'' line \<or> contains ''Packets: Sent'' line)"

definition is_timing_line :: "string \<Rightarrow> bool" where
  "is_timing_line line = (contains ''min/avg/max'' line \<or> contains ''Minimum/Maximum/Average'' line)"

definition parse_line :: "machine \<Rightarrow> string \<Rightarrow> ping_result stmt" where
  "parse_line m line0 =
     (let line = strip line0
      in if is_packets_line line then
           (if os_nt m then
              (if contains ''Sent'' line \<and> contains ''Received'' line
               then for_each (win_packets_part m) (split_on CHR '','' line)
               else skip)
            else unix_packets m line)
         else if is_timing_line line then
           (if os_nt m then for_each (win_timing_part m) (split_on CHR '','' line)
            else unix_timing m line)
         else skip)"

definition parse_output :: "machine \<Rightarrow> string \<Rightarrow> ping_result stmt" where
  "parse_output m output = for_each (parse_line m) (split_on (CHR 0x0A) output)"

subsection \<open>One probe\<close>

definition ping_cmd :: "machine \<Rightarrow> string \<Rightarrow> int \<Rightarrow> int \<Rightarrow> string list" where
  "ping_cmd m h count timeout =
     (if os_nt m then [''ping'', ''-n'', str_int count, ''-w'', str_int (timeout * 1000), h]
      else [''ping'', ''-c'', str_int count, ''-W'', str_int timeout, h])"

definition ping_host :: "machine \<Rightarrow> string \<Rightarrow> int \<Rightarrow> int \<Rightarrow> ping_result" where
  "ping_host m h count timeout =
     (let result = initial_result h
      in case run m (ping_cmd m h count timeout) (timeout * count + 10) of
           Completed returncode out err \<Rightarrow>
             if returncode = 0 then
               (case parse_output m out (result\<lparr>success := True\<rparr>) of
                  (r, None) \<Rightarrow> r
                | (r, Some e) \<Rightarrow> r\<lparr>error := Some (exn_str e)\<rparr>)
             else
               result\<lparr>error := Some (if err \<noteq> [] then err
                                     else ''Ping failed with return code '' @ str_int returncode)\<rparr>
         | TimeoutExpired \<Rightarrow>
             result\<lparr>error := Some (''Ping timeout after '' @ str_int (timeout * count + 10) @ '' seconds'')\<rparr>
         | Raised msg \<Rightarrow> result\<lparr>error := Some msg\<rparr>)"

subsection \<open>The run over all hosts\<close>

datatype out_line =
    NoHostsSpecified  \<comment> \<open>ERROR: No hosts specified. Please provide hosts parameter.\<close>
  | NoValidHosts  \<comment> \<open>ERROR: No valid hosts found in the hosts parameter.\<close>
  | Parameters "string list" int int
  | Pinging int int string  \<comment> \<open>Pinging host i/total: host\<close>
  | Success int int  \<comment> \<open>SUCCESS - received/sent packets received\<close>
  | AverageResponse rat
  | Failed string  \<comment> \<open>FAILED - error\<close>
  | PartialSuccess int int  \<comment> \<open>Partial success: received/sent packets received\<close>
  | SummaryCounts int int int  \<comment> \<open>total, successful, failed\<close>
  | SuccessRate rat
  | Detail string bool rat "rat option"
  | ResultsSaved
  | SaveFailed
  | AllReachable
  | PartialUnreachable int
  | AllUnreachable

record ping_summary =
  total_hosts :: int
  successful_hosts :: int
  failed_hosts :: int
  success_rate :: rat

record ping_report =
  param_hosts :: "string list"
  param_count :: int
  param_timeout :: int
  summary :: ping_summary
  report_results :: "ping_result list"

record ping_run =
  exit_status :: "exn + int"  \<comment> \<open>\<open>Inr\<close> the code of \<^verbatim>\<open>sys.exit\<close>, \<open>Inl\<close> an exception nothing caught\<close>
  stdout :: "out_line list"
  results :: "ping_result list"
  written :: "ping_report option"  \<comment> \<open>the content of ping\_results.json, when it was written\<close>

definition truediv :: "int \<Rightarrow> int \<Rightarrow> exn + rat" where
  \<comment> \<open>\<^verbatim>\<open>a / b\<close> on integers\<close>
  "truediv a b = (if b = 0 then Inl (ZeroDivisionError ''division by zero'') else Inr (of_int a / of_int b))"

fun truthy :: "param \<Rightarrow> bool" where
  "truthy PNone = False"
| "truthy (PBool b) = b"
| "truthy (PInt i) = (i \<noteq> 0)"
| "truthy (PStr s) = (s \<noteq> [])"
| "truthy (PList xs) = (xs \<noteq> [])"

record ping_loop =
  loop_results :: "ping_result list"
  loop_successful :: int
  loop_out :: "out_line list"

definition ping_step :: "machine \<Rightarrow> int \<Rightarrow> int \<Rightarrow> int \<Rightarrow> int \<Rightarrow> string \<Rightarrow> ping_loop \<Rightarrow> ping_loop" where
  \<comment> \<open>the body of the loop over \<^verbatim>\<open>enumerate(hosts, 1)\<close>\<close>
  "ping_step m count timeout ntotal i h st =
     (let result = ping_host m h count timeout;
          st1 = st\<lparr>loop_results := loop_results st @ [result],
                   loop_out := loop_out st @ [Pinging i ntotal h]\<rparr>
      in if success result then
           st1\<lparr>loop_successful := loop_successful st1 + 1,
               loop_out := loop_out st1 @ [Success (packets_received result) (packets_sent result)]
                 @ (case avg_time result of
                      Some t \<Rightarrow> if t \<noteq> 0 then [AverageResponse t] else []
                    | None \<Rightarrow> [])\<rparr>
         else
           st1\<lparr>loop_out := loop_out st1
                 @ [Failed (case error result of
                              Some e \<Rightarrow> if e \<noteq> [] then e else ''Unknown error''
                            | None \<Rightarrow> ''Unknown error'')]
                 @ (if packet_loss_percent result < 100
                    then [PartialSuccess (packets_received result) (packets_sent result)]
                    else [])\<rparr>)"

fun ping_all :: "machine \<Rightarrow> int \<Rightarrow> int \<Rightarrow> int \<Rightarrow> int \<Rightarrow> string list \<Rightarrow> ping_loop \<Rightarrow> ping_loop" where
  "ping_all m count timeout ntotal i [] st = st"
| "ping_all m count timeout ntotal i (h # hs) st =
     ping_all m count timeout ntotal (i + 1) hs (ping_step m count timeout ntotal i h st)"

definition detail_line :: "ping_result \<Rightarrow> out_line" where
  "detail_line r = Detail (host r) (success r) (packet_loss_percent r)
                     (case avg_time r of Some t \<Rightarrow> if t \<noteq> 0 then Some t else None | None \<Rightarrow> None)"

definition exit_lines :: "int \<Rightarrow> int \<Rightarrow> out_line list \<times> int" where
  \<comment> \<open>the last statement of \<^verbatim>\<open>main\<close>: the closing line and the exit code\<close>
  "exit_lines successful ntotal =
     (if successful = ntotal then ([AllReachable], 0)
      else if successful > 0 then ([PartialUnreachable (ntotal - successful)], 1)
      else ([AllUnreachable], 2))"

definition save_report :: "machine \<Rightarrow> string list \<Rightarrow> int \<Rightarrow> int \<Rightarrow> int \<Rightarrow> int \<Rightarrow> ping_result list
    \<Rightarrow> out_line list \<times> ping_report option" where
  \<comment> \<open>the \<^verbatim>\<open>try\<close> block that builds and writes the report: any exception in it becomes a warning\<close>
  "save_report m hosts count timeout ntotal successful rs =
     (case truediv successful ntotal of
        Inl e \<Rightarrow> ([SaveFailed], None)
      | Inr q \<Rightarrow>
          if can_write m then
            ([ResultsSaved],
             Some \<lparr> param_hosts = hosts, param_count = count, param_timeout = timeout,
                    summary = \<lparr> total_hosts = ntotal, successful_hosts = successful,
                                failed_hosts = ntotal - successful, success_rate = q * 100 \<rparr>,
                    report_results = rs \<rparr>)
          else ([SaveFailed], None))"

definition ping_hosts :: "machine \<Rightarrow> string list \<Rightarrow> int \<Rightarrow> int \<Rightarrow> ping_run" where
  \<comment> \<open>\<^verbatim>\<open>main\<close> from the line \<^verbatim>\<open>print(f"Parameters:")\<close> on\<close>
  "ping_hosts m hosts count timeout =
     (let ntotal = int (length hosts);
          st = ping_all m count timeout ntotal 1 hosts
                 \<lparr> loop_results = [], loop_successful = 0, loop_out = [Parameters hosts count timeout] \<rparr>;
          rs = loop_results st;
          successful = loop_successful st;
          out1 = loop_out st @ [SummaryCounts ntotal successful (ntotal - successful)]
      in case truediv successful ntotal of
           Inl e \<Rightarrow> \<lparr> exit_status = Inl e, stdout = out1, results = rs, written = None \<rparr>
         | Inr q \<Rightarrow>
             (let out2 = out1 @ [SuccessRate (q * 100)] @ map detail_line rs;
                  (save_out, file) = save_report m hosts count timeout ntotal successful rs;
                  (last_out, code) = exit_lines successful ntotal
              in \<lparr> exit_status = Inr code, stdout = out2 @ save_out @ last_out,
                    results = rs, written = file \<rparr>))"

definition stopped :: "exn + int \<Rightarrow> out_line list \<Rightarrow> ping_run" where
  "stopped st out = \<lparr> exit_status = st, stdout = out, results = [], written = None \<rparr>"

definition main_ping :: "machine \<Rightarrow> ping_run" where
  \<comment> \<open>\<^verbatim>\<open>main\<close> of network\_ping\_check.py (the time stamps it prints and stores are left out)\<close>
  "main_ping m =
     (case get_parameter (environ m) ''hosts'' (PStr []) TStr of
        Inl e \<Rightarrow> stopped (Inl e) []
      | Inr hosts_param \<Rightarrow>
     (case get_parameter (environ m) ''count'' (PInt 4) TInt of
        Inl e \<Rightarrow> stopped (Inl e) []
      | Inr count \<Rightarrow>
     (case get_parameter (environ m) ''timeout'' (PInt 5) TInt of
        Inl e \<Rightarrow> stopped (Inl e) []
      | Inr timeout \<Rightarrow>
          if \<not> truthy hosts_param then stopped (Inr 1) [NoHostsSpecified]
          else
            (case (hosts_param, count, timeout) of
               (PStr s, PInt c, PInt t) \<Rightarrow>
                 (let hosts = split_items s
                  in if hosts = [] then stopped (Inr 1) [NoValidHosts]
                     else ping_hosts m hosts c t)
             | _ \<Rightarrow> stopped (Inl (TypeError ''parameter of the wrong type'')) []))))"

section \<open>database\_health\_check.py\<close>

subsection \<open>The database driver\<close>

text \<open>
  The drivers (pymysql, psycopg2, sqlite3) are not part of the repository. A connection
  is what it answers to each statement; a cursor follows the Python DB-API (PEP 249), as
  all three drivers implement it: \<^verbatim>\<open>execute\<close> replaces the rows the cursor holds by
  the rows of the new statement, \<^verbatim>\<open>fetchone\<close> takes the next of them or gives
  \<^verbatim>\<open>None\<close> when none is left.
\<close>

datatype cell = Null | CInt int | CFloat rat | CText string

type_synonym row = "cell list"

datatype sql =
    Select_1  \<comment> \<open>SELECT 1 as test\_value\<close>
  | Select_VERSION  \<comment> \<open>SELECT VERSION() as version\<close>
  | Select_version  \<comment> \<open>SELECT version() as version\<close>
  | Select_sqlite_version  \<comment> \<open>SELECT sqlite\_version() as version\<close>
  | Mysql_table_count string  \<comment> \<open>SELECT COUNT(*) FROM information\_schema.tables WHERE table\_schema = '\{database\}'\<close>
  | Mysql_size_mb string  \<comment> \<open>SELECT ROUND(SUM(data\_length + index\_length) / 1024 / 1024, 2) ...\<close>
  | Show_threads_connected  \<comment> \<open>SHOW STATUS LIKE 'Threads\_connected'\<close>
  | Pg_table_count string  \<comment> \<open>SELECT COUNT(*) FROM information\_schema.tables WHERE table\_catalog = '\{database\}' ...\<close>
  | Pg_size_pretty string  \<comment> \<open>SELECT pg\_size\_pretty(pg\_database\_size('\{database\}')) as size\<close>
  | Pg_numbackends string  \<comment> \<open>SELECT numbackends FROM pg\_stat\_database WHERE datname = '\{database\}'\<close>
  | Sqlite_table_count  \<comment> \<open>SELECT COUNT(*) FROM sqlite\_master WHERE type='table'\<close>
  | Mysql_benchmark  \<comment> \<open>SELECT BENCHMARK(10000, MD5('test'))\<close>
  | Pg_md5_series  \<comment> \<open>SELECT MD5('test') FROM generate\_series(1, 1000)\<close>
  | Sqlite_union  \<comment> \<open>SELECT 'test' FROM (SELECT 0 UNION SELECT 1 UNION SELECT 2)\<close>
  | Select_NOW  \<comment> \<open>SELECT NOW()\<close>
  | Sqlite_datetime_now  \<comment> \<open>SELECT datetime('now')\<close>
  | Mysql_tables string  \<comment> \<open>SELECT table\_name, table\_rows, ... WHERE table\_schema = '\{database\}' AND
      table\_type = 'BASE TABLE' ORDER BY (data\_length + index\_length) DESC LIMIT 20\<close>
  | Pg_stat_user_tables  \<comment> \<open>SELECT schemaname, tablename, ... FROM pg\_stat\_user\_tables
      ORDER BY n\_live\_tup DESC LIMIT 20\<close>
  | Sqlite_table_names  \<comment> \<open>SELECT name FROM sqlite\_master WHERE type='table' ORDER BY name\<close>
  | Sqlite_count_rows string  \<comment> \<open>SELECT COUNT(*) FROM `\{table\_name\}`\<close>

type_synonym connection = "sql \<Rightarrow> exn + row list"

type_synonym cursor = "row list"

definition execute :: "connection \<Rightarrow> cursor \<Rightarrow> sql \<Rightarrow> exn + cursor" where
  "execute conn cur q = conn q"

definition fetchone :: "cursor \<Rightarrow> row option \<times> cursor" where
  "fetchone cur = (case cur of [] \<Rightarrow> (None, []) | r # rs \<Rightarrow> (Some r, rs))"

definition fetchall :: "cursor \<Rightarrow> row list \<times> cursor" where
  "fetchall cur = (cur, [])"

definition query_row :: "connection \<Rightarrow> cursor \<Rightarrow> sql \<Rightarrow> exn + row option \<times> cursor" where
  \<comment> \<open>\<^verbatim>\<open>cursor.execute(q)\<close> followed by \<^verbatim>\<open>cursor.fetchone()\<close>\<close>
  "query_row conn cur q = bindE (execute conn cur q) (\<lambda>c. Inr (fetchone c))"

record conn_args =
  arg_host :: param
  arg_port :: param
  arg_database :: string
  arg_user :: param
  arg_password :: param
  arg_timeout :: param

record db_machine = runtime +
  pymysql :: "(conn_args \<Rightarrow> exn + connection) option"  \<comment> \<open>None: the package cannot be imported\<close>
  psycopg2 :: "(conn_args \<Rightarrow> exn + connection) option"
  sqlite3 :: "string \<Rightarrow> param \<Rightarrow> exn + connection"  \<comment> \<open>\<^verbatim>\<open>sqlite3.connect(database, timeout=...)\<close>\<close>
  clock :: "nat \<Rightarrow> rat"  \<comment> \<open>the value of the k-th place in \<^verbatim>\<open>main\<close>'s run that reads \<^verbatim>\<open>time.time()\<close>\<close>
  getsize :: "string \<Rightarrow> nat option"  \<comment> \<open>\<^verbatim>\<open>os.path.getsize\<close>, None where it raises\<close>
  repr_float :: "rat \<Rightarrow> string"  \<comment> \<open>\<^verbatim>\<open>str(x)\<close> of a float\<close>

subsection \<open>Values of the driver in Python expressions\<close>

definition cell_at :: "row \<Rightarrow> nat \<Rightarrow> exn + cell" where
  \<comment> \<open>\<^verbatim>\<open>row[i]\<close> on a tuple\<close>
  "cell_at r i = (if i < length r then Inr (r ! i) else Inl (IndexError ''tuple index out of range''))"

definition row_at :: "row option \<Rightarrow> nat \<Rightarrow> exn + cell" where
  \<comment> \<open>\<^verbatim>\<open>row[i]\<close> on what \<^verbatim>\<open>fetchone\<close> returned\<close>
  "row_at r i =
     (case r of
        None \<Rightarrow> Inl (TypeError (quote ''NoneType'' @ '' object is not subscriptable''))
      | Some cs \<Rightarrow> cell_at cs i)"

fun truthy_cell :: "cell \<Rightarrow> bool" where
  "truthy_cell Null = False"
| "truthy_cell (CInt i) = (i \<noteq> 0)"
| "truthy_cell (CFloat x) = (x \<noteq> 0)"
| "truthy_cell (CText s) = (s \<noteq> [])"

definition truthy_row :: "row option \<Rightarrow> bool" where
  "truthy_row r = (case r of None \<Rightarrow> False | Some cs \<Rightarrow> cs \<noteq> [])"

definition or_zero :: "cell \<Rightarrow> cell" where
  \<comment> \<open>\<^verbatim>\<open>x or 0\<close>\<close>
  "or_zero c = (if truthy_cell c then c else CInt 0)"

fun cell_eq_1 :: "cell \<Rightarrow> bool" where
  \<comment> \<open>\<^verbatim>\<open>x == 1\<close>\<close>
  "cell_eq_1 (CInt i) = (i = 1)"
| "cell_eq_1 (CFloat x) = (x = 1)"
| "cell_eq_1 _ = False"

definition trunc :: "rat \<Rightarrow> int" where
  "trunc x = (if x \<ge> 0 then \<lfloor>x\<rfloor> else \<lceil>x\<rceil>)"

fun int_of_cell :: "cell \<Rightarrow> exn + int" where
  \<comment> \<open>\<^verbatim>\<open>int(x)\<close>\<close>
  "int_of_cell (CInt i) = Inr i"
| "int_of_cell (CFloat x) = Inr (trunc x)"
| "int_of_cell (CText s) = py_int s"
| "int_of_cell Null = Inl (TypeError ''int() argument must be a string, a bytes-like object or a real number, not NoneType'')"

fun float_of_cell :: "(string \<Rightarrow> rat option) \<Rightarrow> cell \<Rightarrow> exn + rat" where
  \<comment> \<open>\<^verbatim>\<open>float(x)\<close>\<close>
  "float_of_cell fo (CInt i) = Inr (of_int i)"
| "float_of_cell fo (CFloat x) = Inr x"
| "float_of_cell fo (CText s) = py_float fo s"
| "float_of_cell fo Null = Inl (TypeError ''float() argument must be a string or a real number, not NoneType'')"

fun str_cell :: "(rat \<Rightarrow> string) \<Rightarrow> cell \<Rightarrow> string" where
  \<comment> \<open>\<^verbatim>\<open>str(x)\<close>, as an f-string inserts it\<close>
  "str_cell rf (CText s) = s"
| "str_cell rf (CInt i) = str_int i"
| "str_cell rf (CFloat x) = rf x"
| "str_cell rf Null = ''None''"

definition round_half_even :: "rat \<Rightarrow> int" where
  "round_half_even x =
     (let f = \<lfloor>x\<rfloor>; d = x - of_int f
      in if d < 1 / 2 then f else if d > 1 / 2 then f + 1 else if even f then f else f + 1)"

definition round2 :: "rat \<Rightarrow> rat" where
  \<comment> \<open>\<^verbatim>\<open>round(x, 2)\<close>\<close>
  "round2 x = of_int (round_half_even (x * 100)) / 100"

subsection \<open>Results of the checks\<close>

datatype pyval = Atom cell | PyList "pyval list" | PyDict "(string \<times> pyval) list"

record check_result = probe +
  test :: string
  response_time_ms :: "rat option"
  details :: "(string \<times> pyval) list"

definition new_result :: "string \<Rightarrow> check_result" where
  "new_result name =
     \<lparr> success = False, error = None, test = name, response_time_ms = None, details = [] \<rparr>"

definition failed_with :: "exn \<Rightarrow> check_result \<Rightarrow> check_result" where
  \<comment> \<open>\<^verbatim>\<open>except Exception as e: result['error'] = str(e)\<close>\<close>
  "failed_with e result = result\<lparr>error := Some (exn_str e)\<rparr>"

definition elapsed_ms :: "rat \<Rightarrow> rat \<Rightarrow> rat" where
  "elapsed_ms start_time end_time = (end_time - start_time) * 1000"

subsection \<open>\<^verbatim>\<open>create_database_connection\<close>\<close>

definition create_database_connection :: "db_machine \<Rightarrow> string \<Rightarrow> conn_args \<Rightarrow> exn + connection" where
  "create_database_connection m db_type args =
     (if lower db_type = ''mysql'' then
        (case pymysql m of
           None \<Rightarrow> Inl (Exception ''pymysql package not available'')
         | Some connect \<Rightarrow> connect args)
      else if lower db_type = ''postgresql'' then
        (case psycopg2 m of
           None \<Rightarrow> Inl (Exception ''psycopg2 package not available'')
         | Some connect \<Rightarrow> connect args)
      else if lower db_type = ''sqlite'' then
        (case sqlite3 m (arg_database args) (arg_timeout args) of
           Inl e \<Rightarrow> Inl (Exception (''SQLite connection failed: '' @ exn_str e))
         | Inr conn \<Rightarrow> Inr conn)
      else Inl (Exception (''Unsupported database type: '' @ db_type)))"

subsection \<open>\<^verbatim>\<open>test_basic_connectivity\<close>\<close>

definition first_or_unknown :: "row option \<Rightarrow> cell" where
  \<comment> \<open>\<^verbatim>\<open>version_result[0] if version_result else 'Unknown'\<close>\<close>
  "first_or_unknown r = (case r of Some (c # cs) \<Rightarrow> c | _ \<Rightarrow> CText ''Unknown'')"

definition sqlite_or_unknown :: "(rat \<Rightarrow> string) \<Rightarrow> row option \<Rightarrow> cell" where
  \<comment> \<open>\<^verbatim>\<open>f"SQLite {version_result[0]}" if version_result else 'Unknown'\<close>\<close>
  "sqlite_or_unknown rf r =
     (case r of Some (c # cs) \<Rightarrow> CText (''SQLite '' @ str_cell rf c) | _ \<Rightarrow> CText ''Unknown'')"

definition connectivity_queries :: "db_machine \<Rightarrow> connection \<Rightarrow> string \<Rightarrow> cursor
    \<Rightarrow> exn + (string \<times> pyval) list \<times> cursor" where
  \<comment> \<open>the \<^verbatim>\<open>if\<close>/\<^verbatim>\<open>elif\<close> chain on the dialect: the details it stores and the cursor after it\<close>
  "connectivity_queries m conn db_type cur =
     (if lower db_type = ''mysql'' then
        bindE (execute conn cur Select_1) (\<lambda>c1.
        bindE (query_row conn c1 Select_VERSION) (\<lambda>(version_result, c2).
        Inr ([(''version'', Atom (first_or_unknown version_result))], c2)))
      else if lower db_type = ''postgresql'' then
        bindE (execute conn cur Select_1) (\<lambda>c1.
        bindE (query_row conn c1 Select_version) (\<lambda>(version_result, c2).
        Inr ([(''version'', Atom (first_or_unknown version_result))], c2)))
      else if lower db_type = ''sqlite'' then
        bindE (execute conn cur Select_1) (\<lambda>c1.
        bindE (query_row conn c1 Select_sqlite_version) (\<lambda>(version_result, c2).
        Inr ([(''version'', Atom (sqlite_or_unknown (repr_float m) version_result))], c2)))
      else Inr ([], cur))"

definition test_basic_connectivity :: "db_machine \<Rightarrow> connection \<Rightarrow> string \<Rightarrow> rat \<Rightarrow> rat \<Rightarrow> check_result" where
  \<comment> \<open>\<open>start_time\<close> and \<open>end_time\<close> are the two readings of \<^verbatim>\<open>time.time()\<close>\<close>
  "test_basic_connectivity m conn db_type start_time end_time =
     (let result = new_result ''basic_connectivity''
      in case connectivity_queries m conn db_type [] of
           Inl e \<Rightarrow> failed_with e result
         | Inr (version_details, cur) \<Rightarrow>
             (let (test_result, cur') = fetchone cur;
                  result1 = result\<lparr>details := version_details,
                                   response_time_ms := Some (elapsed_ms start_time end_time)\<rparr>
              in case row_at test_result 0 of
                   Inl e \<Rightarrow> failed_with e result1
                 | Inr v \<Rightarrow> result1\<lparr>success := cell_eq_1 v\<rparr>))"

subsection \<open>\<^verbatim>\<open>get_database_statistics\<close>\<close>

definition mysql_statistics :: "db_machine \<Rightarrow> connection \<Rightarrow> string \<Rightarrow> exn + (string \<times> pyval) list" where
  "mysql_statistics m conn database =
     bindE (query_row conn [] (Mysql_table_count database)) (\<lambda>(count_result, c1).
     bindE (row_at count_result 0) (\<lambda>table_count.
     bindE (query_row conn c1 (Mysql_size_mb database)) (\<lambda>(size_result, c2).
     bindE (row_at size_result 0) (\<lambda>size0.
     bindE (query_row conn c2 Show_threads_connected) (\<lambda>(connections_result, c3).
     bindE (if truthy_row connections_result
            then bindE (row_at connections_result 1) int_of_cell else Inr 0) (\<lambda>active_connections.
     bindE (float_of_cell (float_of m) (or_zero size0)) (\<lambda>size_mb.
     Inr [(''table_count'', Atom table_count),
          (''size_mb'', Atom (CFloat size_mb)),
          (''active_connections'', Atom (CInt active_connections))])))))))"

definition postgresql_statistics :: "connection \<Rightarrow> string \<Rightarrow> exn + (string \<times> pyval) list" where
  "postgresql_statistics conn database =
     bindE (query_row conn [] (Pg_table_count database)) (\<lambda>(count_result, c1).
     bindE (row_at count_result 0) (\<lambda>table_count.
     bindE (query_row conn c1 (Pg_size_pretty database)) (\<lambda>(size_result, c2).
     bindE (query_row conn c2 (Pg_numbackends database)) (\<lambda>(connections_result, c3).
     Inr [(''table_count'', Atom table_count),
          (''size_pretty'', Atom (first_or_unknown size_result)),
          (''active_connections'',
             Atom (case connections_result of Some (c # cs) \<Rightarrow> c | _ \<Rightarrow> CInt 0))]))))"

definition sqlite_statistics :: "db_machine \<Rightarrow> connection \<Rightarrow> string \<Rightarrow> exn + (string \<times> pyval) list" where
  "sqlite_statistics m conn database =
     bindE (query_row conn [] Sqlite_table_count) (\<lambda>(count_result, c1).
     bindE (row_at count_result 0) (\<lambda>table_count.
     Inr [(''table_count'', Atom table_count),
          (''size_mb'',
             Atom (case getsize m database of
                     Some file_size \<Rightarrow> CFloat (round2 (of_nat file_size / (1024 * 1024)))
                   | None \<Rightarrow> CInt 0)),
          (''file_path'', Atom (CText database))]))"

definition get_database_statistics :: "db_machine \<Rightarrow> connection \<Rightarrow> string \<Rightarrow> string \<Rightarrow> rat \<Rightarrow> rat
    \<Rightarrow> check_result" where
  "get_database_statistics m conn db_type database start_time end_time =
     (let result = new_result ''database_statistics''
      in case (if lower db_type = ''mysql'' then mysql_statistics m conn database
               else if lower db_type = ''postgresql'' then postgresql_statistics conn database
               else if lower db_type = ''sqlite'' then sqlite_statistics m conn database
               else Inr []) of
           Inl e \<Rightarrow> failed_with e result
         | Inr d \<Rightarrow> result\<lparr>details := d,
                            response_time_ms := Some (elapsed_ms start_time end_time),
                            success := True\<rparr>)"

subsection \<open>\<^verbatim>\<open>test_query_performance\<close>\<close>

fun repeat_query :: "nat \<Rightarrow> connection \<Rightarrow> sql \<Rightarrow> cursor \<Rightarrow> exn + cursor" where
  \<comment> \<open>\<^verbatim>\<open>for _ in range(n): cursor.execute(q); cursor.fetchone()\<close>\<close>
  "repeat_query 0 conn q cur = Inr cur"
| "repeat_query (Suc n) conn q cur =
     bindE (execute conn cur q) (\<lambda>c. repeat_query n conn q (snd (fetchone c)))"

definition test_query_performance :: "connection \<Rightarrow> string \<Rightarrow> rat \<Rightarrow> rat \<Rightarrow> rat \<Rightarrow> rat \<Rightarrow> check_result" where
  \<comment> \<open>\<open>t0\<close> to \<open>t3\<close> are the four readings of \<^verbatim>\<open>time.time()\<close>, in the order they are made\<close>
  "test_query_performance conn db_type t0 t1 t2 t3 =
     (let result = new_result ''query_performance''
      in case bindE (execute conn []
                       (if lower db_type = ''mysql'' then Mysql_benchmark
                        else if lower db_type = ''postgresql'' then Pg_md5_series
                        else Sqlite_union)) (\<lambda>c1.
              repeat_query 100 conn
                (if lower db_type = ''mysql'' then Select_NOW
                 else if lower db_type = ''postgresql'' then Select_NOW
                 else Sqlite_datetime_now) (snd (fetchall c1))) of
           Inl e \<Rightarrow> failed_with e result
         | Inr c \<Rightarrow>
             result\<lparr>details :=
                      [(''performance_tests'',
                        PyList [PyDict [(''test'', Atom (CText ''computation_test'')),
                                        (''duration_ms'', Atom (CFloat (elapsed_ms t0 t1)))],
                                PyDict [(''test'', Atom (CText ''100_timestamp_queries'')),
                                        (''duration_ms'', Atom (CFloat (elapsed_ms t2 t3)))]])],
                    response_time_ms := Some (0 + elapsed_ms t0 t1 + elapsed_ms t2 t3),
                    success := True\<rparr>)"

subsection \<open>\<^verbatim>\<open>get_table_health\<close>\<close>

definition mysql_table :: "db_machine \<Rightarrow> row \<Rightarrow> exn + pyval" where
  "mysql_table m r =
     bindE (cell_at r 0) (\<lambda>table_name.
     bindE (cell_at r 1) (\<lambda>table_rows.
     bindE (bindE (cell_at r 2) (\<lambda>c. float_of_cell (float_of m) (or_zero c))) (\<lambda>size_mb.
     bindE (bindE (cell_at r 3) (\<lambda>c. float_of_cell (float_of m) (or_zero c))) (\<lambda>data_size_mb.
     bindE (bindE (cell_at r 4) (\<lambda>c. float_of_cell (float_of m) (or_zero c))) (\<lambda>index_size_mb.
     Inr (PyDict [(''table_name'', Atom table_name),
                  (''estimated_rows'', Atom (or_zero table_rows)),
                  (''total_size_mb'', Atom (CFloat size_mb)),
                  (''data_size_mb'', Atom (CFloat data_size_mb)),
                  (''index_size_mb'', Atom (CFloat index_size_mb))]))))))"

definition postgresql_table :: "row \<Rightarrow> exn + pyval" where
  "postgresql_table r =
     bindE (cell_at r 0) (\<lambda>schemaname.
     bindE (cell_at r 1) (\<lambda>tablename.
     bindE (cell_at r 2) (\<lambda>n_tup_ins.
     bindE (cell_at r 3) (\<lambda>n_tup_upd.
     bindE (cell_at r 4) (\<lambda>n_tup_del.
     bindE (cell_at r 5) (\<lambda>n_live_tup.
     bindE (cell_at r 6) (\<lambda>n_dead_tup.
     Inr (PyDict [(''schema'', Atom schemaname),
                  (''table_name'', Atom tablename),
                  (''inserts'', Atom n_tup_ins),
                  (''updates'', Atom n_tup_upd),
                  (''deletes'', Atom n_tup_del),
                  (''live_tuples'', Atom n_live_tup),
                  (''dead_tuples'', Atom n_dead_tup)]))))))))"

definition sqlite_table :: "db_machine \<Rightarrow> connection \<Rightarrow> cursor \<Rightarrow> row \<Rightarrow> exn + pyval \<times> cursor" where
  "sqlite_table m conn cur r =
     bindE (cell_at r 0) (\<lambda>table_name.
     bindE (query_row conn cur (Sqlite_count_rows (str_cell (repr_float m) table_name))) (\<lambda>(count_result, c1).
     bindE (row_at count_result 0) (\<lambda>row_count.
     Inr (PyDict [(''table_name'', Atom table_name), (''row_count'', Atom row_count)], c1))))"

fun tables_info :: "db_machine \<Rightarrow> connection \<Rightarrow> string \<Rightarrow> cursor \<Rightarrow> row list \<Rightarrow> pyval list
    \<Rightarrow> exn + pyval list" where
  \<comment> \<open>\<^verbatim>\<open>for row in rows:\<close> with the list \<^verbatim>\<open>tables_info\<close> built so far\<close>
  "tables_info m conn db_type cur [] acc = Inr acc"
| "tables_info m conn db_type cur (r # rs) acc =
     (if lower db_type = ''mysql'' then
        bindE (mysql_table m r) (\<lambda>t. tables_info m conn db_type cur rs (acc @ [t]))
      else if lower db_type = ''postgresql'' then
        bindE (postgresql_table r) (\<lambda>t. tables_info m conn db_type cur rs (acc @ [t]))
      else
        bindE (sqlite_table m conn cur r) (\<lambda>(t, c1). tables_info m conn db_type c1 rs (acc @ [t])))"

definition get_table_health :: "db_machine \<Rightarrow> connection \<Rightarrow> string \<Rightarrow> string \<Rightarrow> rat \<Rightarrow> rat \<Rightarrow> check_result" where
  "get_table_health m conn db_type database start_time end_time =
     (let result = new_result ''table_health''
      in case bindE (execute conn []
                       (if lower db_type = ''mysql'' then Mysql_tables database
                        else if lower db_type = ''postgresql'' then Pg_stat_user_tables
                        else Sqlite_table_names)) (\<lambda>c1.
              (let (rows, c2) = fetchall c1 in tables_info m conn db_type c2 rows [])) of
           Inl e \<Rightarrow> failed_with e result
         | Inr tables \<Rightarrow>
             result\<lparr>details := [(''tables'', PyList tables),
                                 (''table_count'', Atom (CInt (int (length tables))))],
                    response_time_ms := Some (elapsed_ms start_time end_time),
                    success := True\<rparr>)"

subsection \<open>\<^verbatim>\<open>main\<close> of database\_health\_check.py\<close>

record db_summary =
  total_tests :: int
  successful_tests :: int
  failed_tests :: int
  db_success_rate :: rat

definition aggregate :: "check_result list \<Rightarrow> exn + db_summary" where
  \<comment> \<open>the counts of lines 471 and 472 and the \<^verbatim>\<open>summary\<close> dictionary built from them\<close>
  "aggregate all_results =
     (let successful_tests = int (length (filter success all_results));
          total_tests = int (length all_results)
      in case truediv successful_tests (max total_tests 1) of
           Inl e \<Rightarrow> Inl e
         | Inr q \<Rightarrow>
             Inr \<lparr> total_tests = total_tests, successful_tests = successful_tests,
                   failed_tests = total_tests - successful_tests, db_success_rate = q * 100 \<rparr>)"

record db_params =
  p_db_type :: string
  p_host :: param
  p_port :: param
  p_database :: param
  p_username :: param
  p_password :: param
  p_timeout :: param

record db_report =
  rep_db_type :: string
  rep_host :: param
  rep_port :: param
  rep_database :: string
  rep_timeout :: param
  rep_overall_success :: bool
  rep_summary :: db_summary
  test_results :: "check_result list"

record db_run =
  db_exit_status :: "exn + int"  \<comment> \<open>\<open>Inr\<close> the code of \<^verbatim>\<open>sys.exit\<close>, \<open>Inl\<close> an exception nothing caught\<close>
  all_results :: "check_result list"
  printed_summary :: "db_summary option"
  db_written :: "db_report option"  \<comment> \<open>the content of db\_health\_results.json, when it was written\<close>

record tests_state =
  seen :: "check_result list"  \<comment> \<open>\<^verbatim>\<open>all_results\<close>\<close>
  overall_success :: bool

definition underscored :: "string \<Rightarrow> string" where
  \<comment> \<open>\<^verbatim>\<open>test_name.lower().replace(' ', '_')\<close>\<close>
  "underscored s = map (\<lambda>c. if c = CHR '' '' then CHR ''_'' else c) (lower s)"

definition run_test :: "string \<Rightarrow> check_result \<Rightarrow> tests_state \<Rightarrow> tests_state" where
  \<comment> \<open>the body of \<^verbatim>\<open>for test_name, test_func in tests\<close>, given what \<^verbatim>\<open>test_func()\<close> returned.
      The only statement of the \<^verbatim>\<open>try\<close> that can raise is the line that prints
      \<^verbatim>\<open>response_time_ms\<close> with two decimals, when that is \<^verbatim>\<open>None\<close>.\<close>
  "run_test test_name result st =
     (let st1 = st\<lparr>seen := seen st @ [result]\<rparr>
      in if success result then
           (case response_time_ms result of
              Some t \<Rightarrow> st1
            | None \<Rightarrow>
                st1\<lparr>seen := seen st1 @
                      [(new_result (underscored test_name))
                         \<lparr>error := Some ''unsupported format string passed to NoneType.__format__''\<rparr>],
                    overall_success := False\<rparr>)
         else st1\<lparr>overall_success := False\<rparr>)"

fun run_tests :: "(string \<times> check_result) list \<Rightarrow> tests_state \<Rightarrow> tests_state" where
  "run_tests [] st = st"
| "run_tests ((test_name, result) # tests) st = run_tests tests (run_test test_name result st)"

definition connect_args :: "db_params \<Rightarrow> string \<Rightarrow> conn_args" where
  "connect_args p database =
     \<lparr> arg_host = p_host p, arg_port = p_port p, arg_database = database,
       arg_user = p_username p, arg_password = p_password p, arg_timeout = p_timeout p \<rparr>"

definition health_checks :: "db_machine \<Rightarrow> db_params \<Rightarrow> string \<Rightarrow> tests_state" where
  \<comment> \<open>the outer \<^verbatim>\<open>try\<close> of \<^verbatim>\<open>main\<close>: connect and run the four checks, or record the failed connection\<close>
  "health_checks m p database =
     (case create_database_connection m (p_db_type p) (connect_args p database) of
        Inl e \<Rightarrow>
          \<lparr> seen = [(new_result ''connection'')\<lparr>error := Some (exn_str e)\<rparr>], overall_success = False \<rparr>
      | Inr connection \<Rightarrow>
          run_tests
            [(''Basic Connectivity'',
                test_basic_connectivity m connection (p_db_type p) (clock m 0) (clock m 1)),
             (''Database Statistics'',
                get_database_statistics m connection (p_db_type p) database (clock m 2) (clock m 3)),
             (''Query Performance'',
                test_query_performance connection (p_db_type p) (clock m 4) (clock m 5) (clock m 6) (clock m 7)),
             (''Table Health'',
                get_table_health m connection (p_db_type p) database (clock m 8) (clock m 9))]
            \<lparr> seen = [], overall_success = True \<rparr>)"

definition default_port :: "string \<Rightarrow> param" where
  \<comment> \<open>\<^verbatim>\<open>3306 if db_type.lower() == 'mysql' else 5432 if db_type.lower() == 'postgresql' else None\<close>\<close>
  "default_port db_type =
     (if lower db_type = ''mysql'' then PInt 3306
      else if lower db_type = ''postgresql'' then PInt 5432
      else PNone)"

definition read_params :: "db_machine \<Rightarrow> exn + db_params" where
  \<comment> \<open>the seven calls of \<^verbatim>\<open>get_parameter\<close>, in their order\<close>
  "read_params m =
     bindE (get_parameter_db (environ m) ''db_type'' (PStr ''mysql'') TStr) (\<lambda>db_type.
     bindE (get_parameter_db (environ m) ''host'' (PStr ''localhost'') TStr) (\<lambda>host.
     bindE (case db_type of PStr s \<Rightarrow> Inr s
            | _ \<Rightarrow> Inl (AttributeError ''object has no attribute lower'')) (\<lambda>db_type_s.
     bindE (get_parameter_db (environ m) ''port'' (default_port db_type_s) TInt) (\<lambda>port.
     bindE (get_parameter_db (environ m) ''database'' PNone TStr) (\<lambda>database.
     bindE (get_parameter_db (environ m) ''username'' PNone TStr) (\<lambda>username.
     bindE (get_parameter_db (environ m) ''password'' PNone TStr) (\<lambda>password.
     bindE (get_parameter_db (environ m) ''timeout'' (PInt 30) TInt) (\<lambda>timeout.
     Inr \<lparr> p_db_type = db_type_s, p_host = host, p_port = port, p_database = database,
           p_username = username, p_password = password, p_timeout = timeout \<rparr>))))))))"

definition resolve_port :: "db_params \<Rightarrow> db_params" where
  \<comment> \<open>the block \<^verbatim>\<open>if port is None:\<close>\<close>
  "resolve_port p =
     (if p_port p = PNone
      then (if lower (p_db_type p) = ''mysql'' then p\<lparr>p_port := PInt 3306\<rparr>
            else if lower (p_db_type p) = ''postgresql'' then p\<lparr>p_port := PInt 5432\<rparr>
            else p)
      else p)"

definition db_stopped :: "exn + int \<Rightarrow> db_run" where
  "db_stopped st = \<lparr> db_exit_status = st, all_results = [], printed_summary = None, db_written = None \<rparr>"

definition main_db :: "db_machine \<Rightarrow> db_run" where
  \<comment> \<open>\<^verbatim>\<open>main\<close> (what it prints and the time stamp are left out; closing the connection has
      no effect on what follows)\<close>
  "main_db m =
     (case read_params m of
        Inl e \<Rightarrow> db_stopped (Inl e)
      | Inr p0 \<Rightarrow>
          if \<not> truthy (p_database p0) then db_stopped (Inr 1)
          else
            (case p_database p0 of
               PStr database \<Rightarrow>
                 (let p = resolve_port p0;
                      st = health_checks m p database
                  in case aggregate (seen st) of
                       Inl e \<Rightarrow> \<lparr> db_exit_status = Inl e, all_results = seen st,
                                  printed_summary = None, db_written = None \<rparr>
                     | Inr s \<Rightarrow>
                         \<lparr> db_exit_status = Inr (if overall_success st then 0 else 1),
                           all_results = seen st,
                           printed_summary = Some s,
                           db_written =
                             (if can_write m then
                                Some \<lparr> rep_db_type = p_db_type p, rep_host = p_host p, rep_port = p_port p,
                                       rep_database = database, rep_timeout = p_timeout p,
                                       rep_overall_success = overall_success st,
                                       rep_summary = s, test_results = seen st \<rparr>
                              else None) \<rparr>)
             | _ \<Rightarrow> db_stopped (Inl (TypeError ''parameter of the wrong type''))))"

section \<open>Concrete machines\<close>

text \<open>
  The machines below read floats with this grammar: \<^verbatim>\<open>digits\<close> or
  \<^verbatim>\<open>digits.digits\<close>, with whitespace around. On these literals it gives the value
  \<^verbatim>\<open>float\<close> gives; it rejects everything else, which \<^verbatim>\<open>float\<close> does too for the
  texts met below (\<^verbatim>\<open>'0.061 ms'\<close>, \<^verbatim>\<open>'+1 errors'\<close>).
\<close>

definition plain_digits :: "string \<Rightarrow> nat option" where
  "plain_digits s = (if s \<noteq> [] \<and> list_all is_digit s then decimal s else None)"

definition plain_float :: "string \<Rightarrow> rat option" where
  "plain_float s =
     (case split_on CHR ''.'' (strip s) of
        [a] \<Rightarrow> map_option of_nat (plain_digits a)
      | [a, b] \<Rightarrow>
          (case (plain_digits a, plain_digits b) of
             (Some x, Some y) \<Rightarrow> Some (of_nat x + of_nat y / 10 ^ length b)
           | _ \<Rightarrow> None)
      | _ \<Rightarrow> None)"

text \<open>
  A Linux machine whose \<^verbatim>\<open>ping\<close> (iputils) reaches 10.0.0.1 and 10.0.0.2, cannot resolve
  bad.host, hangs on slow.host and reports errors before the loss figure for lossy.host.
\<close>

definition ping_tool :: "string list \<Rightarrow> int \<Rightarrow> run_outcome" where
  "ping_tool cmd limit =
     (if last cmd = ''bad.host'' then Completed 2 [] ''ping: bad.host: Name or service not known''
      else if last cmd = ''slow.host'' then TimeoutExpired
      else if last cmd = ''lossy.host'' then
        Completed 0 ''4 packets transmitted, 3 received, +1 errors, 25% packet loss, time 3004ms'' []
      else
        Completed 0 ''4 packets transmitted, 4 received, 0% packet loss, time 3005ms\<newline>rtt min/avg/max/mdev = 1.5/2.5/3.5/0.5 ms'' [])"

definition unix_box :: "(string \<rightharpoonup> string) \<Rightarrow> machine" where
  "unix_box env =
     \<lparr> environ = env, float_of = plain_float, can_write = True, os_nt = False, run = ping_tool \<rparr>"



text \<open>
  A stand-in for an SQLite file with the given tables (name and number of rows): what
  \<^verbatim>\<open>sqlite3\<close> answers to the statements of the script.
\<close>

definition sqlite_file :: "(string \<times> nat) list \<Rightarrow> connection" where
  "sqlite_file tables q =
     (case q of
        Select_1 \<Rightarrow> Inr [[CInt 1]]
      | Select_sqlite_version \<Rightarrow> Inr [[CText ''3.45.1'']]
      | Sqlite_table_count \<Rightarrow> Inr [[CInt (int (length tables))]]
      | Sqlite_union \<Rightarrow> Inr [[CText ''test''], [CText ''test''], [CText ''test'']]
      | Sqlite_datetime_now \<Rightarrow> Inr [[CText ''2026-11-04 12:00:00'']]
      | Sqlite_table_names \<Rightarrow> Inr (map (\<lambda>name. [CText name]) (sort (map fst tables)))
      | Sqlite_count_rows name \<Rightarrow>
          (case map_of tables name of
             Some n \<Rightarrow> Inr [[CInt (int n)]]
           | None \<Rightarrow> Inl (Exception (''no such table: '' @ name)))
      | _ \<Rightarrow> Inl (Exception ''syntax error''))"

definition db_box :: "(string \<rightharpoonup> string) \<Rightarrow> (string \<times> nat) list \<Rightarrow> db_machine" where
  \<comment> \<open>a machine with sqlite3 only, on which every database path opens the same file\<close>
  "db_box env tables =
     \<lparr> environ = env, float_of = plain_float, can_write = True,
       pymysql = None, psycopg2 = None, sqlite3 = (\<lambda>database timeout. Inr (sqlite_file tables)),
       clock = (\<lambda>k. of_nat k / 100), getsize = (\<lambda>path. Some 8192), repr_float = (\<lambda>x. ''0.0'') \<rparr>"

definition twenty_one_tables :: "(string \<times> nat) list" where
  "twenty_one_tables = map (\<lambda>k. (''t'' @ digits_of (10 + k), k)) [0..<21]"

section \<open>Notions used to state the properties\<close>

definition keeps :: "('s \<Rightarrow> 'b) \<Rightarrow> 's stmt \<Rightarrow> bool" where
  \<comment> \<open>the statement never changes the entry \<open>f\<close> of the dictionary, whether it raises or not\<close>
  "keeps f c = (\<forall>s. f (fst (c s)) = f s)"


fun progress_line :: "out_line \<Rightarrow> bool" where
  \<comment> \<open>the lines the loop over the hosts can print when no probe is a partial success\<close>
  "progress_line (Parameters hosts count timeout) = True"
| "progress_line (Pinging i n h) = True"
| "progress_line (Success a b) = True"
| "progress_line (AverageResponse x) = True"
| "progress_line (Failed e) = True"
| "progress_line _ = False"

section \<open>Statements that keep an entry\<close>

lemma keeps_skip: "keeps f skip"
  by (simp add: keeps_def skip_def)

lemma keeps_raise: "keeps f (raise e)"
  by (simp add: keeps_def raise_def)

lemma keeps_assign: "(\<And>x s. f (upd x s) = f s) \<Longrightarrow> keeps f (assign v upd)"
  by (simp add: keeps_def assign_def split: sum.splits)

lemma keeps_seq: "keeps f c \<Longrightarrow> keeps f d \<Longrightarrow> keeps f (seq c d)"
  by (auto simp: keeps_def seq_def split: prod.splits option.splits) (metis fst_conv)+

lemma keeps_for_each: "(\<And>x. x \<in> set xs \<Longrightarrow> keeps f (body x)) \<Longrightarrow> keeps f (for_each body xs)"
proof (induction xs)
  case Nil
  show ?case by (simp add: keeps_def)
next
  case (Cons x xs)
  have a: "keeps f (body x)" and b: "keeps f (for_each body xs)"
    using Cons by simp_all
  show ?case
    unfolding keeps_def
  proof
    fix s
    obtain s' oe where st: "body x s = (s', oe)" by (cases "body x s")
    have "f s' = f s" using a st by (metis fst_conv keeps_def)
    moreover have "f (fst (for_each body xs s')) = f s'" using b by (simp add: keeps_def)
    ultimately show "f (fst (for_each body (x # xs) s)) = f s"
      using st by (cases oe) simp_all
  qed
qed

section \<open>What parsing can change\<close>

lemma keeps_win_packets:
  assumes "\<And>v r. f (r\<lparr>packets_sent := v\<rparr>) = f r" "\<And>v r. f (r\<lparr>packets_received := v\<rparr>) = f r"
    "\<And>v r. f (r\<lparr>packet_loss_percent := v\<rparr>) = f r"
  shows "keeps f (win_packets_part m p)"
  using assms by (simp add: win_packets_part_def Let_def keeps_assign keeps_skip)

lemma keeps_unix_packets:
  assumes "\<And>v r. f (r\<lparr>packets_sent := v\<rparr>) = f r" "\<And>v r. f (r\<lparr>packets_received := v\<rparr>) = f r"
    "\<And>v r. f (r\<lparr>packet_loss_percent := v\<rparr>) = f r"
  shows "keeps f (unix_packets m p)"
  using assms by (simp add: unix_packets_def Let_def keeps_assign keeps_skip keeps_seq)

lemma keeps_win_timing:
  assumes "\<And>v r. f (r\<lparr>min_time := v\<rparr>) = f r" "\<And>v r. f (r\<lparr>avg_time := v\<rparr>) = f r"
    "\<And>v r. f (r\<lparr>max_time := v\<rparr>) = f r"
  shows "keeps f (win_timing_part m p)"
  using assms by (simp add: win_timing_part_def Let_def keeps_assign keeps_skip)

lemma keeps_unix_timing:
  assumes "\<And>v r. f (r\<lparr>min_time := v\<rparr>) = f r" "\<And>v r. f (r\<lparr>avg_time := v\<rparr>) = f r"
    "\<And>v r. f (r\<lparr>max_time := v\<rparr>) = f r"
  shows "keeps f (unix_timing m p)"
  using assms
  by (simp add: unix_timing_def Let_def keeps_assign keeps_skip keeps_seq keeps_raise split: sum.splits)

lemma keeps_parse_line:
  assumes "\<And>v r. f (r\<lparr>packets_sent := v\<rparr>) = f r" "\<And>v r. f (r\<lparr>packets_received := v\<rparr>) = f r"
    "\<And>v r. f (r\<lparr>packet_loss_percent := v\<rparr>) = f r"
    "\<And>v r. f (r\<lparr>min_time := v\<rparr>) = f r" "\<And>v r. f (r\<lparr>avg_time := v\<rparr>) = f r"
    "\<And>v r. f (r\<lparr>max_time := v\<rparr>) = f r"
  shows "keeps f (parse_line m l)"
  using assms
  by (simp add: parse_line_def Let_def keeps_skip keeps_for_each keeps_win_packets keeps_unix_packets
      keeps_win_timing keeps_unix_timing)


lemma parse_output_success: "success (fst (parse_output m out r)) = success r"
proof -
  have "keeps success (parse_output m out)"
    unfolding parse_output_def by (rule keeps_for_each) (simp add: keeps_parse_line)
  then show ?thesis by (simp add: keeps_def)
qed

lemma parse_output_host: "host (fst (parse_output m out r)) = host r"
proof -
  have "keeps host (parse_output m out)"
    unfolding parse_output_def by (rule keeps_for_each) (simp add: keeps_parse_line)
  then show ?thesis by (simp add: keeps_def)
qed


section \<open>One probe\<close>


lemma ping_host_success:
  "success (ping_host m h c t) =
     (case run m (ping_cmd m h c t) (t * c + 10) of Completed rc out err \<Rightarrow> rc = 0 | _ \<Rightarrow> False)"
proof (cases "run m (ping_cmd m h c t) (t * c + 10)")
  case (Completed rc out err)
  show ?thesis
  proof (cases "rc = 0")
    case True
    obtain r oe where p: "parse_output m out ((initial_result h)\<lparr>success := True\<rparr>) = (r, oe)"
      by (cases "parse_output m out ((initial_result h)\<lparr>success := True\<rparr>)")
    have "success r = True"
      using parse_output_success [of m out "(initial_result h)\<lparr>success := True\<rparr>"] p by simp
    then show ?thesis
      using Completed True p by (cases oe) (simp_all add: ping_host_def)
  next
    case False
    then show ?thesis using Completed by (simp add: ping_host_def initial_result_def)
  qed
next
  case TimeoutExpired
  then show ?thesis by (simp add: ping_host_def initial_result_def)
next
  case (Raised msg)
  then show ?thesis by (simp add: ping_host_def initial_result_def)
qed

lemma ping_host_host: "host (ping_host m h c t) = h"
proof (cases "run m (ping_cmd m h c t) (t * c + 10)")
  case (Completed rc out err)
  show ?thesis
  proof (cases "rc = 0")
    case True
    obtain r oe where p: "parse_output m out ((initial_result h)\<lparr>success := True\<rparr>) = (r, oe)"
      by (cases "parse_output m out ((initial_result h)\<lparr>success := True\<rparr>)")
    have "host r = h"
      using parse_output_host [of m out "(initial_result h)\<lparr>success := True\<rparr>"] p
      by (simp add: initial_result_def)
    then show ?thesis
      using Completed True p by (cases oe) (simp_all add: ping_host_def)
  next
    case False
    then show ?thesis using Completed by (simp add: ping_host_def initial_result_def)
  qed
next
  case TimeoutExpired
  then show ?thesis by (simp add: ping_host_def initial_result_def)
next
  case (Raised msg)
  then show ?thesis by (simp add: ping_host_def initial_result_def)
qed

lemma ping_host_failed:
  assumes "\<not> success (ping_host m h c t)"
  shows "packets_sent (ping_host m h c t) = 0 \<and> packets_received (ping_host m h c t) = 0
    \<and> packet_loss_percent (ping_host m h c t) = 100"
proof (cases "run m (ping_cmd m h c t) (t * c + 10)")
  case (Completed rc out err)
  have "rc \<noteq> 0" using assms Completed by (simp add: ping_host_success)
  then show ?thesis using Completed by (simp add: ping_host_def initial_result_def)
next
  case TimeoutExpired
  then show ?thesis by (simp add: ping_host_def initial_result_def)
next
  case (Raised msg)
  then show ?thesis by (simp add: ping_host_def initial_result_def)
qed

section \<open>The loop\<close>

lemma ping_all_results:
  "loop_results (ping_all m c t n i hs st) = loop_results st @ map (\<lambda>h. ping_host m h c t) hs"
  by (induction hs arbitrary: i st) (simp_all add: ping_step_def Let_def)

lemma ping_all_successful:
  "loop_successful (ping_all m c t n i hs st) =
     loop_successful st + int (length (filter success (map (\<lambda>h. ping_host m h c t) hs)))"
  by (induction hs arbitrary: i st) (simp_all add: ping_step_def Let_def)

lemma ping_step_progress:
  "list_all progress_line (loop_out st) \<Longrightarrow> list_all progress_line (loop_out (ping_step m c t n i h st))"
  using ping_host_failed [of m h c t]
  by (auto simp: ping_step_def Let_def split: option.splits)

lemma ping_all_progress:
  "list_all progress_line (loop_out st) \<Longrightarrow> list_all progress_line (loop_out (ping_all m c t n i hs st))"
  by (induction hs arbitrary: i st) (simp_all add: ping_step_progress)

lemma ping_hosts_results:
  "results (ping_hosts m hosts c t) = map (\<lambda>h. ping_host m h c t) hosts"
  by (simp add: ping_hosts_def Let_def ping_all_results split: sum.splits prod.splits)

lemma env_name_hosts: "env_name ''hosts'' = ''PARAM_HOSTS''"
  by code_simp


lemma env_name_timeout: "env_name ''timeout'' = ''PARAM_TIMEOUT''"
  by code_simp

lemma py_int_cases: "(\<exists>i. py_int s = Inr i) \<or> (\<exists>msg. py_int s = Inl (ValueError msg))"
  by (auto simp: py_int_def Let_def split: list.splits option.splits)

lemma coerce_int_str: "\<exists>v. coerce_int (PStr s) (PInt d) = Inr (PInt v)"
  using py_int_cases [of s] by (auto simp: coerce_int_def)

lemma get_int_parameter: "\<exists>v. get_parameter env name (PInt d) TInt = Inr (PInt v)"
  using coerce_int_str [of _ d]
  by (cases "env (env_name name)") (auto simp: get_parameter_def environ_get_def coerce_int_def)

lemma get_hosts_parameter:
  "get_parameter env ''hosts'' (PStr []) TStr =
     Inr (PStr (case env ''PARAM_HOSTS'' of None \<Rightarrow> [] | Some s \<Rightarrow> s))"
  by (simp add: get_parameter_def environ_get_def env_name_hosts split: option.splits)

lemma split_items_Nil: "split_items [] = []"
  by (simp add: split_items_def split_on_def strip_def)

lemma main_ping_cases:
  "\<exists>c t. main_ping m =
     (case environ m ''PARAM_HOSTS'' of
        None \<Rightarrow> stopped (Inr 1) [NoHostsSpecified]
      | Some s \<Rightarrow>
          if s = [] then stopped (Inr 1) [NoHostsSpecified]
          else if split_items s = [] then stopped (Inr 1) [NoValidHosts]
          else ping_hosts m (split_items s) c t)"
proof -
  obtain c where c: "get_parameter (environ m) ''count'' (PInt 4) TInt = Inr (PInt c)"
    using get_int_parameter by blast
  obtain t where t: "get_parameter (environ m) ''timeout'' (PInt 5) TInt = Inr (PInt t)"
    using get_int_parameter by blast
  have "main_ping m =
     (case environ m ''PARAM_HOSTS'' of
        None \<Rightarrow> stopped (Inr 1) [NoHostsSpecified]
      | Some s \<Rightarrow>
          if s = [] then stopped (Inr 1) [NoHostsSpecified]
          else if split_items s = [] then stopped (Inr 1) [NoValidHosts]
          else ping_hosts m (split_items s) c t)"
    by (simp add: main_ping_def get_hosts_parameter c t Let_def split: option.splits)
  then show ?thesis by blast
qed

lemma filter_length_eq_iff: "(int (length (filter P xs)) = int (length xs)) = list_all P xs"
  by (metis filter_id_conv length_filter_less less_irrefl list_all_iff of_nat_eq_iff filter_True)

lemma filter_length_pos_iff: "(0 < int (length (filter P xs))) = (\<not> list_all (\<lambda>x. \<not> P x) xs)"
  by (auto simp: list_all_iff filter_empty_conv)

lemma ping_hosts_exit:
  assumes "hosts \<noteq> []"
  shows "exit_status (ping_hosts m hosts c t) =
    Inr (if list_all success (map (\<lambda>h. ping_host m h c t) hosts) then 0
         else if list_all (\<lambda>r. \<not> success r) (map (\<lambda>h. ping_host m h c t) hosts) then 2 else 1)"
proof -
  let ?rs = "map (\<lambda>h. ping_host m h c t) hosts"
  have n: "int (length hosts) \<noteq> 0" using assms by simp
  have e: "exit_status (ping_hosts m hosts c t) =
      Inr (snd (exit_lines (int (length (filter success ?rs))) (int (length hosts))))"
    using n by (simp add: ping_hosts_def Let_def ping_all_successful truediv_def split: prod.splits)
  have a: "(int (length (filter success ?rs)) = int (length hosts)) = list_all success ?rs"
    using filter_length_eq_iff [of success ?rs] by simp
  have b: "(0 < int (length (filter success ?rs))) = (\<not> list_all (\<lambda>r. \<not> success r) ?rs)"
    by (rule filter_length_pos_iff)
  show ?thesis
    unfolding e exit_lines_def using a b by auto
qed

lemma ping_hosts_stdout_no_partial: "PartialSuccess a b \<notin> set (stdout (ping_hosts m hosts c t))"
proof -
  let ?st = "ping_all m c t (int (length hosts)) 1 hosts
      \<lparr> loop_results = [], loop_successful = 0, loop_out = [Parameters hosts c t] \<rparr>"
  have "list_all progress_line (loop_out ?st)"
    by (rule ping_all_progress) simp
  then have l: "PartialSuccess a b \<notin> set (loop_out ?st)"
    by (auto simp: list_all_iff)
  show ?thesis
    using l
    by (auto simp: ping_hosts_def Let_def save_report_def exit_lines_def detail_line_def
        split: sum.splits prod.splits if_splits)
qed

text \<open>
  Claim C2. The network check exits with 0 when every probe result is successful, with 2
  when every probe failed, with 1 when some but not all failed, and with 1 and no probe
  made when the hosts parameter is missing or names no host. The results are those of
  the hosts, one each, so an empty list of results is the case of no host.
\<close>

theorem ping_exit_code:
  "exit_status (main_ping m) =
     Inr (if results (main_ping m) = [] then 1
          else if list_all success (results (main_ping m)) then 0
          else if list_all (\<lambda>r. \<not> success r) (results (main_ping m)) then 2
          else 1)
   \<and> (results (main_ping m) = [] \<longleftrightarrow>
        (case environ m ''PARAM_HOSTS'' of None \<Rightarrow> True | Some s \<Rightarrow> split_items s = []))"
proof -
  obtain c t where mc: "main_ping m =
     (case environ m ''PARAM_HOSTS'' of
        None \<Rightarrow> stopped (Inr 1) [NoHostsSpecified]
      | Some s \<Rightarrow>
          if s = [] then stopped (Inr 1) [NoHostsSpecified]
          else if split_items s = [] then stopped (Inr 1) [NoValidHosts]
          else ping_hosts m (split_items s) c t)"
    using main_ping_cases by blast
  show ?thesis
  proof (cases "environ m ''PARAM_HOSTS''")
    case None
    then show ?thesis using mc by (simp add: stopped_def)
  next
    case (Some s)
    show ?thesis
    proof (cases "split_items s = []")
      case True
      then show ?thesis using mc Some by (simp add: stopped_def)
    next
      case False
      then have "s \<noteq> []" using split_items_Nil by auto
      then have "main_ping m = ping_hosts m (split_items s) c t"
        using mc Some False by simp
      then show ?thesis
        using False Some ping_hosts_exit [OF False, of m c t] by (simp add: ping_hosts_results)
    qed
  qed
qed

text \<open>The four cases on the concrete machine.\<close>

theorem ping_exit_code_witness:
  "exit_status (main_ping (unix_box [''PARAM_HOSTS'' \<mapsto> ''10.0.0.1,10.0.0.2''])) = Inr 0
   \<and> exit_status (main_ping (unix_box [''PARAM_HOSTS'' \<mapsto> ''10.0.0.1,bad.host''])) = Inr 1
   \<and> exit_status (main_ping (unix_box [''PARAM_HOSTS'' \<mapsto> ''bad.host,slow.host''])) = Inr 2
   \<and> exit_status (main_ping (unix_box Map.empty)) = Inr 1"
proof -
  let ?all = "unix_box [''PARAM_HOSTS'' \<mapsto> ''10.0.0.1,10.0.0.2'']"
  let ?some = "unix_box [''PARAM_HOSTS'' \<mapsto> ''10.0.0.1,bad.host'']"
  let ?none = "unix_box [''PARAM_HOSTS'' \<mapsto> ''bad.host,slow.host'']"
  have a: "results (main_ping ?all) \<noteq> [] \<and> list_all success (results (main_ping ?all))"
    by code_simp
  have s: "results (main_ping ?some) \<noteq> [] \<and> \<not> list_all success (results (main_ping ?some))
      \<and> \<not> list_all (\<lambda>r. \<not> success r) (results (main_ping ?some))"
    by code_simp
  have n: "results (main_ping ?none) \<noteq> [] \<and> \<not> list_all success (results (main_ping ?none))
      \<and> list_all (\<lambda>r. \<not> success r) (results (main_ping ?none))"
    by code_simp
  have e: "environ (unix_box Map.empty) ''PARAM_HOSTS'' = None"
    by (simp add: unix_box_def)
  show ?thesis
    using ping_exit_code [of ?all] ping_exit_code [of ?some] ping_exit_code [of ?none]
      ping_exit_code [of "unix_box Map.empty"] a s n e
    by simp
qed

text \<open>
  Claim C3. For every list of hosts the run yields the list of the results of the single
  probes, one per host and in the order of the hosts, whatever the outcome of each probe
  (time-out, exception, non-zero status or success): the result of a host is the result
  of probing that host alone. In \<open>main\<close> the hosts probed are the items of the hosts
  parameter.
\<close>

theorem one_result_per_host:
  "results (ping_hosts m hosts count timeout) = map (\<lambda>h. ping_host m h count timeout) hosts
   \<and> map host (results (ping_hosts m hosts count timeout)) = hosts
   \<and> length (results (ping_hosts m hosts count timeout)) = length hosts
   \<and> map host (results (main_ping m)) =
       (case environ m ''PARAM_HOSTS'' of None \<Rightarrow> [] | Some s \<Rightarrow> split_items s)"
proof -
  obtain c t where mc: "main_ping m =
     (case environ m ''PARAM_HOSTS'' of
        None \<Rightarrow> stopped (Inr 1) [NoHostsSpecified]
      | Some s \<Rightarrow>
          if s = [] then stopped (Inr 1) [NoHostsSpecified]
          else if split_items s = [] then stopped (Inr 1) [NoValidHosts]
          else ping_hosts m (split_items s) c t)"
    using main_ping_cases by blast
  have h: "map host (map (\<lambda>h. ping_host m h c' t') hs) = hs" for c' t' hs
    by (induction hs) (simp_all add: ping_host_host)
  have h': "map (host \<circ> (\<lambda>h. ping_host m h c' t')) hs = hs" for c' t' hs
    using h [of c' t' hs] by simp
  have "map host (results (main_ping m)) =
       (case environ m ''PARAM_HOSTS'' of None \<Rightarrow> [] | Some s \<Rightarrow> split_items s)"
    unfolding mc by (simp add: stopped_def ping_hosts_results h' split_items_Nil split: option.splits)
  then show ?thesis
    by (simp add: ping_hosts_results h')
qed

text \<open>
  Claim C10. A probe result that is not successful has 0 packets sent, 0 packets received
  and a loss of 100, and no run of \<open>main\<close> prints the line "Partial success".
\<close>

theorem failed_ping_keeps_defaults:
  "(\<not> success (ping_host m h count timeout) \<longrightarrow>
      packets_sent (ping_host m h count timeout) = 0
      \<and> packets_received (ping_host m h count timeout) = 0
      \<and> packet_loss_percent (ping_host m h count timeout) = 100)
   \<and> PartialSuccess a b \<notin> set (stdout (main_ping m'))"
proof -
  obtain c t where mc: "main_ping m' =
     (case environ m' ''PARAM_HOSTS'' of
        None \<Rightarrow> stopped (Inr 1) [NoHostsSpecified]
      | Some s \<Rightarrow>
          if s = [] then stopped (Inr 1) [NoHostsSpecified]
          else if split_items s = [] then stopped (Inr 1) [NoValidHosts]
          else ping_hosts m' (split_items s) c t)"
    using main_ping_cases by blast
  have "PartialSuccess a b \<notin> set (stdout (main_ping m'))"
    unfolding mc by (simp add: stopped_def ping_hosts_stdout_no_partial split: option.splits)
  then show ?thesis
    using ping_host_failed [of m h count timeout] by blast
qed

theorem failed_ping_keeps_defaults_witness:
  "\<not> success (ping_host (unix_box Map.empty) ''bad.host'' 4 5)
   \<and> packets_sent (ping_host (unix_box Map.empty) ''bad.host'' 4 5) = 0
   \<and> packets_received (ping_host (unix_box Map.empty) ''bad.host'' 4 5) = 0
   \<and> packet_loss_percent (ping_host (unix_box Map.empty) ''bad.host'' 4 5) = 100"
proof -
  have f: "\<not> success (ping_host (unix_box Map.empty) ''bad.host'' 4 5)"
    by code_simp
  show ?thesis
    using f failed_ping_keeps_defaults [of "unix_box Map.empty" "''bad.host''" 4 5 0 0 "unix_box Map.empty"]
    by blast
qed




text \<open>
  Claim C9, amended. When the tool exceeds the limit, the result is the initial result
  (not successful, 0 packets sent and received, loss 100) with the error
  "Ping timeout after N seconds", where N is timeout * count + 10. That number is the limit
  given to the tool: the probe depends on the transport only through what it does for this
  command with this limit.
\<close>

theorem ping_timeout_result:
  "(run m (ping_cmd m h c t) (t * c + 10) = TimeoutExpired \<longrightarrow>
      ping_host m h c t =
        (initial_result h)\<lparr>error := Some (''Ping timeout after '' @ str_int (t * c + 10) @ '' seconds'')\<rparr>
      \<and> \<not> success (ping_host m h c t)
      \<and> packets_sent (ping_host m h c t) = 0
      \<and> packets_received (ping_host m h c t) = 0
      \<and> packet_loss_percent (ping_host m h c t) = 100)
   \<and> (r (ping_cmd m h c t) (t * c + 10) = r' (ping_cmd m h c t) (t * c + 10) \<longrightarrow>
        ping_host (m\<lparr>run := r\<rparr>) h c t = ping_host (m\<lparr>run := r'\<rparr>) h c t)"
proof -
  have c: "ping_cmd (m\<lparr>run := f\<rparr>) h c t = ping_cmd m h c t" for f
    by (simp add: ping_cmd_def)
  have fo: "float_of (m\<lparr>run := f\<rparr>) = float_of m" for f
    by simp
  have wp: "win_packets_part (m\<lparr>run := f\<rparr>) = win_packets_part m" for f
    by (rule ext) (simp only: win_packets_part_def fo)
  have wt: "win_timing_part (m\<lparr>run := f\<rparr>) = win_timing_part m" for f
    by (rule ext) (simp only: win_timing_part_def ms_value_def fo)
  have up: "unix_packets (m\<lparr>run := f\<rparr>) = unix_packets m" for f
    by (rule ext) (simp only: unix_packets_def fo)
  have ut: "unix_timing (m\<lparr>run := f\<rparr>) = unix_timing m" for f
    by (rule ext) (simp only: unix_timing_def fo)
  have pl: "parse_line (m\<lparr>run := f\<rparr>) = parse_line m" for f
    by (rule ext) (simp add: parse_line_def Let_def wp wt up ut)
  have p: "parse_output (m\<lparr>run := f\<rparr>) out = parse_output m out" for f out
    by (simp add: parse_output_def pl)
  have "ping_host (m\<lparr>run := r\<rparr>) h c t = ping_host (m\<lparr>run := r'\<rparr>) h c t"
    if "r (ping_cmd m h c t) (t * c + 10) = r' (ping_cmd m h c t) (t * c + 10)"
    using that by (simp add: ping_host_def Let_def c p split: run_outcome.splits)
  then show ?thesis
    by (simp add: ping_host_def initial_result_def)
qed

theorem ping_timeout_result_witness:
  "ping_host (unix_box Map.empty) ''slow.host'' 4 5 =
     (initial_result ''slow.host'')\<lparr>error := Some ''Ping timeout after 30 seconds''\<rparr>
   \<and> \<not> success (ping_host (unix_box Map.empty) ''slow.host'' 4 5)
   \<and> packets_sent (ping_host (unix_box Map.empty) ''slow.host'' 4 5) = 0
   \<and> packets_received (ping_host (unix_box Map.empty) ''slow.host'' 4 5) = 0
   \<and> packet_loss_percent (ping_host (unix_box Map.empty) ''slow.host'' 4 5) = 100"
proof -
  have r: "run (unix_box Map.empty) (ping_cmd (unix_box Map.empty) ''slow.host'' 4 5) (5 * 4 + 10)
      = TimeoutExpired"
    by code_simp
  have s: "str_int (5 * 4 + 10) = ''30''"
    by code_simp
  show ?thesis
    using ping_timeout_result [of "unix_box Map.empty" "''slow.host''" 4 5 ping_tool ping_tool] r s
    by (simp add: initial_result_def)
qed

text \<open>
  Claim C9 as stated fails on the text of the message: for count 4 and timeout 5 it is
  "Ping timeout after 30 seconds", which is not "timeout after 30s" and does not contain it.
\<close>

theorem ping_timeout_message_counterexample:
  "run (unix_box Map.empty) (ping_cmd (unix_box Map.empty) ''slow.host'' 4 5) (5 * 4 + 10) = TimeoutExpired
   \<and> error (ping_host (unix_box Map.empty) ''slow.host'' 4 5) = Some ''Ping timeout after 30 seconds''
   \<and> error (ping_host (unix_box Map.empty) ''slow.host'' 4 5) \<noteq> Some ''timeout after 30s''
   \<and> \<not> contains ''timeout after 30s'' ''Ping timeout after 30 seconds''"
  by code_simp







section \<open>The summaries\<close>

lemma rate_bounds:
  assumes "0 \<le> s" "s \<le> n"
  shows "0 \<le> (of_int s :: rat) / of_int (max n 1) * 100 \<and> (of_int s :: rat) / of_int (max n 1) * 100 \<le> 100"
proof -
  have m: "(1 :: int) \<le> max n 1" by simp
  then have p: "(0 :: rat) < of_int (max n 1)" by linarith
  have "s \<le> max n 1" using assms by simp
  then have "(of_int s :: rat) \<le> of_int (max n 1)" by (simp only: of_int_le_iff)
  then have q: "(of_int s :: rat) / of_int (max n 1) \<le> 1"
    by (simp only: divide_le_eq_1_pos [OF p])
  have z: "0 \<le> (of_int s :: rat) / of_int (max n 1)"
    using assms(1) p by (intro divide_nonneg_pos) simp_all
  have "(of_int s :: rat) / of_int (max n 1) * 100 \<le> 1 * 100"
    using q by (intro mult_right_mono) simp_all
  moreover have "0 \<le> (of_int s :: rat) / of_int (max n 1) * 100"
    using z by (intro mult_nonneg_nonneg) simp_all
  ultimately show ?thesis by simp
qed

lemma aggregate_value:
  "aggregate rs =
     Inr \<lparr> total_tests = int (length rs),
           successful_tests = int (length (filter success rs)),
           failed_tests = int (length rs) - int (length (filter success rs)),
           db_success_rate = of_int (int (length (filter success rs))) / of_int (max (int (length rs)) 1) * 100 \<rparr>"
  by (simp add: aggregate_def truediv_def Let_def)

lemma ping_hosts_written:
  assumes "written (ping_hosts m hosts c t) = Some rep"
  shows "hosts \<noteq> []"
    and "summary rep =
      \<lparr> total_hosts = int (length hosts),
        successful_hosts = int (length (filter success (map (\<lambda>h. ping_host m h c t) hosts))),
        failed_hosts = int (length hosts) - int (length (filter success (map (\<lambda>h. ping_host m h c t) hosts))),
        success_rate = of_int (int (length (filter success (map (\<lambda>h. ping_host m h c t) hosts))))
                         / of_int (int (length hosts)) * 100 \<rparr>"
proof -
  show ne: "hosts \<noteq> []"
    using assms by (auto simp: ping_hosts_def Let_def truediv_def)
  then show "summary rep =
      \<lparr> total_hosts = int (length hosts),
        successful_hosts = int (length (filter success (map (\<lambda>h. ping_host m h c t) hosts))),
        failed_hosts = int (length hosts) - int (length (filter success (map (\<lambda>h. ping_host m h c t) hosts))),
        success_rate = of_int (int (length (filter success (map (\<lambda>h. ping_host m h c t) hosts))))
                         / of_int (int (length hosts)) * 100 \<rparr>"
    using assms
    by (auto simp: ping_hosts_def Let_def truediv_def save_report_def ping_all_results
        ping_all_successful split: prod.splits if_splits)
qed

lemma ping_hosts_stdout_summary:
  "SummaryCounts n s f \<in> set (stdout (ping_hosts m hosts c t)) \<Longrightarrow>
     n = int (length hosts) \<and> s = int (length (filter success (map (\<lambda>h. ping_host m h c t) hosts)))
     \<and> f = n - s"
  "SuccessRate q \<in> set (stdout (ping_hosts m hosts c t)) \<Longrightarrow>
     q = of_int (int (length (filter success (map (\<lambda>h. ping_host m h c t) hosts))))
           / of_int (max (int (length hosts)) 1) * 100"
proof -
  let ?st = "ping_all m c t (int (length hosts)) 1 hosts
      \<lparr> loop_results = [], loop_successful = 0, loop_out = [Parameters hosts c t] \<rparr>"
  have "list_all progress_line (loop_out ?st)"
    by (rule ping_all_progress) simp
  then have l: "SummaryCounts n s f \<notin> set (loop_out ?st)" "SuccessRate q \<notin> set (loop_out ?st)"
    by (auto simp: list_all_iff)
  show "SummaryCounts n s f \<in> set (stdout (ping_hosts m hosts c t)) \<Longrightarrow>
     n = int (length hosts) \<and> s = int (length (filter success (map (\<lambda>h. ping_host m h c t) hosts)))
     \<and> f = n - s"
    using l(1)
    by (auto simp: ping_hosts_def Let_def save_report_def exit_lines_def detail_line_def
        ping_all_successful split: sum.splits prod.splits if_splits)
  have mx: "max (int (length hosts)) 1 = int (length hosts)" if "hosts \<noteq> []"
    using that by (cases hosts) simp_all
  show "SuccessRate q \<in> set (stdout (ping_hosts m hosts c t)) \<Longrightarrow>
     q = of_int (int (length (filter success (map (\<lambda>h. ping_host m h c t) hosts))))
           / of_int (max (int (length hosts)) 1) * 100"
    using l(2) mx
    by (auto simp: ping_hosts_def Let_def save_report_def exit_lines_def detail_line_def
        ping_all_successful truediv_def split: sum.splits prod.splits if_splits)
qed

lemma main_ping_stdout:
  assumes "SummaryCounts n s f \<in> set (stdout (main_ping m)) \<or> SuccessRate q \<in> set (stdout (main_ping m))"
  shows "\<exists>hosts c t. main_ping m = ping_hosts m hosts c t"
proof -
  obtain c t where mc: "main_ping m =
     (case environ m ''PARAM_HOSTS'' of
        None \<Rightarrow> stopped (Inr 1) [NoHostsSpecified]
      | Some s \<Rightarrow>
          if s = [] then stopped (Inr 1) [NoHostsSpecified]
          else if split_items s = [] then stopped (Inr 1) [NoValidHosts]
          else ping_hosts m (split_items s) c t)"
    using main_ping_cases by blast
  show ?thesis
    using assms unfolding mc
    by (auto simp: stopped_def split: option.splits if_splits)
qed

lemma main_ping_exits: "\<exists>code. exit_status (main_ping m) = Inr code"
proof -
  obtain c t where mc: "main_ping m =
     (case environ m ''PARAM_HOSTS'' of
        None \<Rightarrow> stopped (Inr 1) [NoHostsSpecified]
      | Some s \<Rightarrow>
          if s = [] then stopped (Inr 1) [NoHostsSpecified]
          else if split_items s = [] then stopped (Inr 1) [NoValidHosts]
          else ping_hosts m (split_items s) c t)"
    using main_ping_cases by blast
  show ?thesis
    unfolding mc using ping_hosts_exit [of _ m c t]
    by (auto simp: stopped_def split: option.splits)
qed

lemma main_ping_written:
  assumes "written (main_ping m) = Some rep"
  shows "\<exists>hosts c t. hosts \<noteq> [] \<and> main_ping m = ping_hosts m hosts c t"
proof -
  obtain c t where mc: "main_ping m =
     (case environ m ''PARAM_HOSTS'' of
        None \<Rightarrow> stopped (Inr 1) [NoHostsSpecified]
      | Some s \<Rightarrow>
          if s = [] then stopped (Inr 1) [NoHostsSpecified]
          else if split_items s = [] then stopped (Inr 1) [NoValidHosts]
          else ping_hosts m (split_items s) c t)"
    using main_ping_cases by blast
  show ?thesis
    using assms unfolding mc
    by (auto simp: stopped_def split: option.splits if_splits)
qed

text \<open>
  Claim C1. The summary of the database check, for every list of results: total is the
  length, successes + failures = total, the rate is successes / max(total, 1) * 100 and
  lies between 0 and 100, and is 0 for the empty list; no division by zero; and the
  summary that \<open>main\<close> prints is the one of its results. The summary of the network
  check, in the report and in the lines printed: the same equations and bounds. There the
  division is by the number of hosts itself, and \<open>main\<close> leaves before when there is
  no host, so that every run ends with an exit code and never with a division by zero.
  Rates are exact rationals here.
\<close>

theorem run_summary_invariant:
  "(\<exists>s. aggregate rs = Inr s
        \<and> total_tests s = int (length rs)
        \<and> successful_tests s = int (length (filter success rs))
        \<and> successful_tests s + failed_tests s = total_tests s
        \<and> db_success_rate s = of_int (successful_tests s) / of_int (max (total_tests s) 1) * 100
        \<and> 0 \<le> db_success_rate s \<and> db_success_rate s \<le> 100)
   \<and> (\<exists>s. aggregate [] = Inr s \<and> total_tests s = 0 \<and> db_success_rate s = 0)
   \<and> (printed_summary (main_db dm) = Some s' \<longrightarrow> aggregate (all_results (main_db dm)) = Inr s')
   \<and> (written (main_ping m) = Some rep \<longrightarrow>
        total_hosts (summary rep) = int (length (results (main_ping m)))
        \<and> successful_hosts (summary rep) = int (length (filter success (results (main_ping m))))
        \<and> successful_hosts (summary rep) + failed_hosts (summary rep) = total_hosts (summary rep)
        \<and> success_rate (summary rep)
            = of_int (successful_hosts (summary rep)) / of_int (max (total_hosts (summary rep)) 1) * 100
        \<and> 0 \<le> success_rate (summary rep) \<and> success_rate (summary rep) \<le> 100)
   \<and> (SummaryCounts n k f \<in> set (stdout (main_ping m)) \<longrightarrow>
        k + f = n \<and> n = int (length (results (main_ping m))))
   \<and> (SuccessRate q \<in> set (stdout (main_ping m)) \<longrightarrow> 0 \<le> q \<and> q \<le> 100)
   \<and> (\<exists>code. exit_status (main_ping m) = Inr code)"
proof -
  have le: "int (length (filter success xs)) \<le> int (length xs)" for xs :: "'a probe_scheme list"
    by simp
  have db: "\<exists>s. aggregate rs = Inr s
        \<and> total_tests s = int (length rs)
        \<and> successful_tests s = int (length (filter success rs))
        \<and> successful_tests s + failed_tests s = total_tests s
        \<and> db_success_rate s = of_int (successful_tests s) / of_int (max (total_tests s) 1) * 100
        \<and> 0 \<le> db_success_rate s \<and> db_success_rate s \<le> 100"
    using rate_bounds [of "int (length (filter success rs))" "int (length rs)"] le [of rs]
    by (simp add: aggregate_value)
  have empty: "\<exists>s. aggregate [] = Inr s \<and> total_tests s = 0 \<and> db_success_rate s = 0"
    by (simp add: aggregate_value)
  have pr: "aggregate (all_results (main_db dm)) = Inr s'" if "printed_summary (main_db dm) = Some s'"
    using that
    by (auto simp: main_db_def db_stopped_def Let_def split: sum.splits if_splits param.splits)
  have net: "total_hosts (summary rep) = int (length (results (main_ping m)))
        \<and> successful_hosts (summary rep) = int (length (filter success (results (main_ping m))))
        \<and> successful_hosts (summary rep) + failed_hosts (summary rep) = total_hosts (summary rep)
        \<and> success_rate (summary rep)
            = of_int (successful_hosts (summary rep)) / of_int (max (total_hosts (summary rep)) 1) * 100
        \<and> 0 \<le> success_rate (summary rep) \<and> success_rate (summary rep) \<le> 100"
    if w: "written (main_ping m) = Some rep"
  proof -
    obtain hosts c t where h: "hosts \<noteq> []" "main_ping m = ping_hosts m hosts c t"
      using main_ping_written [OF w] by blast
    let ?rs = "map (\<lambda>h. ping_host m h c t) hosts"
    have mx: "max (int (length hosts)) 1 = int (length hosts)"
      using h(1) by (cases hosts) simp_all
    have sm: "summary rep =
      \<lparr> total_hosts = int (length hosts),
        successful_hosts = int (length (filter success ?rs)),
        failed_hosts = int (length hosts) - int (length (filter success ?rs)),
        success_rate = of_int (int (length (filter success ?rs))) / of_int (int (length hosts)) * 100 \<rparr>"
      using ping_hosts_written(2) [of m hosts c t rep] w h(2) by simp
    have rs: "results (main_ping m) = ?rs"
      using h(2) by (simp add: ping_hosts_results)
    have t: "total_hosts (summary rep) = int (length hosts)"
      and s: "successful_hosts (summary rep) = int (length (filter success ?rs))"
      and f: "failed_hosts (summary rep) = int (length hosts) - int (length (filter success ?rs))"
      and r: "success_rate (summary rep) =
          of_int (int (length (filter success ?rs))) / of_int (int (length hosts)) * 100"
      unfolding sm by simp_all
    have r': "success_rate (summary rep) =
        of_int (successful_hosts (summary rep)) / of_int (max (total_hosts (summary rep)) 1) * 100"
      unfolding r s t mx ..
    have b: "0 \<le> success_rate (summary rep) \<and> success_rate (summary rep) \<le> 100"
      unfolding r' s t
      using le [of ?rs] by (intro rate_bounds) simp_all
    have l: "int (length (results (main_ping m))) = int (length hosts)"
      unfolding rs by simp
    show ?thesis
      using r' b unfolding l s f t rs by simp
  qed
  have counts: "k + f = n \<and> n = int (length (results (main_ping m)))"
    if p: "SummaryCounts n k f \<in> set (stdout (main_ping m))"
  proof -
    obtain hosts c t where h: "main_ping m = ping_hosts m hosts c t"
      using main_ping_stdout [of n k f m] p by blast
    show ?thesis
      using ping_hosts_stdout_summary(1) [of n k f m hosts c t] p
      unfolding h by (simp add: ping_hosts_results)
  qed
  have rate: "0 \<le> q \<and> q \<le> 100" if p: "SuccessRate q \<in> set (stdout (main_ping m))"
  proof -
    obtain hosts c t where h: "main_ping m = ping_hosts m hosts c t"
      using main_ping_stdout [of _ _ _ m q] p by blast
    let ?rs = "map (\<lambda>h. ping_host m h c t) hosts"
    have "q = of_int (int (length (filter success ?rs))) / of_int (max (int (length hosts)) 1) * 100"
      using ping_hosts_stdout_summary(2) [of q m hosts c t] p unfolding h by simp
    then show ?thesis
      using rate_bounds [of "int (length (filter success ?rs))" "int (length hosts)"] le [of ?rs]
      by simp
  qed
  show ?thesis
    using db empty pr net counts rate main_ping_exits [of m] by blast
qed

theorem run_summary_invariant_witness:
  "written (main_ping (unix_box [''PARAM_HOSTS'' \<mapsto> ''10.0.0.1,bad.host''])) \<noteq> None
   \<and> total_hosts (summary (the (written (main_ping (unix_box [''PARAM_HOSTS'' \<mapsto> ''10.0.0.1,bad.host''])))))
       = 2
   \<and> successful_hosts (summary (the (written (main_ping (unix_box [''PARAM_HOSTS'' \<mapsto> ''10.0.0.1,bad.host''])))))
       + failed_hosts (summary (the (written (main_ping (unix_box [''PARAM_HOSTS'' \<mapsto> ''10.0.0.1,bad.host''])))))
       = 2
   \<and> 0 \<le> success_rate (summary (the (written (main_ping (unix_box [''PARAM_HOSTS'' \<mapsto> ''10.0.0.1,bad.host''])))))
   \<and> success_rate (summary (the (written (main_ping (unix_box [''PARAM_HOSTS'' \<mapsto> ''10.0.0.1,bad.host''])))))
       \<le> 100
   \<and> printed_summary (main_db (db_box [''PARAM_DATABASE'' \<mapsto> ''shop''] [])) \<noteq> None
   \<and> aggregate (all_results (main_db (db_box [''PARAM_DATABASE'' \<mapsto> ''shop''] [])))
       = Inr (the (printed_summary (main_db (db_box [''PARAM_DATABASE'' \<mapsto> ''shop''] []))))"
proof -
  let ?m = "unix_box [''PARAM_HOSTS'' \<mapsto> ''10.0.0.1,bad.host'']"
  let ?d = "db_box [''PARAM_DATABASE'' \<mapsto> ''shop''] []"
  have "written (main_ping ?m) \<noteq> None"
    by code_simp
  then obtain rep where w: "written (main_ping ?m) = Some rep"
    by auto
  have l: "length (results (main_ping ?m)) = 2"
    by code_simp
  have "printed_summary (main_db ?d) \<noteq> None"
    by code_simp
  then obtain s where p: "printed_summary (main_db ?d) = Some s"
    by auto
  have f: "total_hosts (summary rep) = int (length (results (main_ping ?m)))
      \<and> successful_hosts (summary rep) + failed_hosts (summary rep) = total_hosts (summary rep)
      \<and> 0 \<le> success_rate (summary rep) \<and> success_rate (summary rep) \<le> 100
      \<and> aggregate (all_results (main_db ?d)) = Inr s"
    using run_summary_invariant [of "[]" ?d s ?m rep 0 0 0 0] w p by blast
  have "total_hosts (summary rep) = 2"
    using f l by simp
  then show ?thesis
    using f w p by simp
qed

section \<open>The connectivity check\<close>

lemma connectivity_one_version_row:
  assumes "conn Select_VERSION = Inr [v1]" "conn Select_version = Inr [v2]"
    "conn Select_sqlite_version = Inr [v3]"
  shows "\<not> success (test_basic_connectivity m conn db_type t0 t1)"
  using assms
  by (cases "conn Select_1")
     (simp_all add: test_basic_connectivity_def connectivity_queries_def query_row_def execute_def
       fetchone_def bindE_def row_at_def failed_with_def new_result_def Let_def)

text \<open>
  Claim C5 fails on the code. On an SQLite database that answers 1 to the trivial query
  and one row to the version query, the check is not successful: the result of the
  trivial query is replaced in the cursor by the version row, the second
  \<^verbatim>\<open>fetchone\<close> gives \<^verbatim>\<open>None\<close>, and indexing it raises. The version and the
  response time are recorded.
\<close>

theorem connectivity_ignores_select_1:
  "sqlite_file [] Select_1 = Inr [[CInt 1]]
   \<and> sqlite_file [] Select_sqlite_version = Inr [[CText ''3.45.1'']]
   \<and> \<not> success (test_basic_connectivity (db_box Map.empty []) (sqlite_file []) ''sqlite'' 0 1)
   \<and> error (test_basic_connectivity (db_box Map.empty []) (sqlite_file []) ''sqlite'' 0 1)
       = Some (quote ''NoneType'' @ '' object is not subscriptable'')
   \<and> details (test_basic_connectivity (db_box Map.empty []) (sqlite_file []) ''sqlite'' 0 1)
       = [(''version'', Atom (CText ''SQLite 3.45.1''))]
   \<and> response_time_ms (test_basic_connectivity (db_box Map.empty []) (sqlite_file []) ''sqlite'' 0 1)
       = Some 1000"
  by code_simp

section \<open>The table health check\<close>

lemma sqlite_tables_info:
  assumes "lower db_type = ''sqlite''" "set names \<subseteq> fst ` set tables"
  shows "tables_info m (sqlite_file tables) db_type cur (map (\<lambda>name. [CText name]) names) acc =
    Inr (acc @ map (\<lambda>name. PyDict [(''table_name'', Atom (CText name)),
                                     (''row_count'', Atom (CInt (case map_of tables name of
                                                                   Some n \<Rightarrow> int n | None \<Rightarrow> 0)))])
                names)"
  using assms(2)
proof (induction names arbitrary: cur acc)
  case Nil
  show ?case by simp
next
  case (Cons name names)
  have ne: "''sqlite'' \<noteq> ''mysql''" "''sqlite'' \<noteq> ''postgresql''"
    by simp_all
  obtain n where n: "map_of tables name = Some n"
    using Cons.prems by (metis (no_types, opaque_lifting) image_iff list.set_intros(1) map_of_eq_None_iff
        not_Some_eq subset_code(1))
  have st: "sqlite_table m (sqlite_file tables) cur [CText name] =
      Inr (PyDict [(''table_name'', Atom (CText name)), (''row_count'', Atom (CInt (int n)))], [])"
    by (simp add: sqlite_table_def cell_at_def bindE_def query_row_def execute_def sqlite_file_def n
        fetchone_def row_at_def)
  have "set names \<subseteq> fst ` set tables"
    using Cons.prems by simp
  then show ?case
    using Cons.IH [of "[]"] by (simp add: assms(1) ne st bindE_def n)
qed

lemma sqlite_table_health_lists_all:
  assumes "lower db_type = ''sqlite''"
  shows "details (get_table_health m (sqlite_file tables) db_type database t0 t1) =
    [(''tables'',
      PyList (map (\<lambda>name. PyDict [(''table_name'', Atom (CText name)),
                                   (''row_count'', Atom (CInt (case map_of tables name of
                                                                 Some n \<Rightarrow> int n | None \<Rightarrow> 0)))])
                (sort (map fst tables)))),
     (''table_count'', Atom (CInt (int (length tables))))]"
proof -
  have ne: "''sqlite'' \<noteq> ''mysql''" "''sqlite'' \<noteq> ''postgresql''"
    by simp_all
  have s: "set (sort (map fst tables)) \<subseteq> fst ` set tables"
    by simp
  show ?thesis
    using sqlite_tables_info [OF assms s, of m "[]" "[]"]
    by (simp add: get_table_health_def assms ne execute_def bindE_def fetchall_def sqlite_file_def
        new_result_def)
qed

text \<open>
  Claim C8 fails on the code for SQLite. On a database with 21 tables the check lists
  21 tables (ordered by name): the statement for SQLite has no LIMIT, while those for
  MySQL and PostgreSQL end with LIMIT 20.
\<close>

theorem sqlite_table_health_unlimited:
  "length twenty_one_tables = 21
   \<and> success (get_table_health (db_box Map.empty twenty_one_tables) (sqlite_file twenty_one_tables)
               ''sqlite'' ''/data/shop.db'' 0 1)
   \<and> map_of (details (get_table_health (db_box Map.empty twenty_one_tables) (sqlite_file twenty_one_tables)
                        ''sqlite'' ''/data/shop.db'' 0 1)) ''table_count''
       = Some (Atom (CInt 21))
   \<and> (case map_of (details (get_table_health (db_box Map.empty twenty_one_tables)
                              (sqlite_file twenty_one_tables) ''sqlite'' ''/data/shop.db'' 0 1)) ''tables'' of
         Some (PyList tables) \<Rightarrow> length tables = 21
       | _ \<Rightarrow> False)"
  by code_simp

section \<open>The run of the database check\<close>





















end
